theory Spec2Isabelle
  imports Complex_Main
begin

section \<open>Tensors, errors and the torch operations used by the OHNM losses\<close>

text \<open>
  The two losses are \<open>OHNMClassicImipLoss.forward_with_log_data\<close>
  (\<open>ohnm_avg_outlier_balanced_classic.py\<close>, the probability form) and
  \<open>OHNMBCELoss.forward_with_log_data\<close> (\<open>ohnm_outlier_balanced_bce.py\<close>, the logit form).
  Numbers are exact reals: rounding and overflow of float32 are outside this model, and
  nothing is derived here from the sign or the size of a rounded value. The one expression
  of the source that float32 can evaluate to NaN on integer arguments, the weight formula of
  the logit form, is partial in the model.
  An exception raised by a call is a value of \<open>error\<close>. \<open>NotANumber\<close> is no exception: it
  is the outcome of a call whose loss is NaN, which the real-valued \<open>scalar\<close> cannot hold.
\<close>

datatype error =
  AssertionError | ZeroDivisionError | IndexError | RuntimeError | ValueError | NotANumber

text \<open>A one-element tensor: its value and whether autograd tracks it.\<close>

record scalar =
  item :: real
  requires_grad :: bool

text \<open>
  The total loss is built by additions. Next to its value it carries its place in the
  autograd graph: the tensors that \<open>+\<close> has added into it, in order. A tensor that was not
  added does not occur, and a tensor that no addition produced has no addends.
\<close>

record accumulator = scalar +
  addends :: "scalar list"

text \<open>
  The score tensors arrive as \<open>B x C x H x W\<close> (the source reads \<open>shape[0]\<close> to \<open>shape[3]\<close>).
\<close>

record tensor4 =
  dim0 :: nat
  dim1 :: nat
  dim2 :: nat
  dim3 :: nat
  at4 :: "nat \<Rightarrow> nat \<Rightarrow> nat \<Rightarrow> nat \<Rightarrow> real"
  grad4 :: bool

text \<open>A tensor of any rank, after slicing and squeezing: its shape and its cells.\<close>

record tensor =
  shape :: "nat list"
  elt :: "nat list \<Rightarrow> real"
  req_grad :: bool

text \<open>
  A two-dimensional uint8 tensor that only holds 0 and 1 (every mask of the source is built
  from boolean labels and \<open>torch.eye\<close>): on such values \<open>*\<close> and \<open>&\<close> are conjunction,
  \<open>|\<close> is disjunction and \<open>^\<close> is inequality. Used as an index it acts as a boolean mask.
\<close>

record mask2 =
  rows :: nat
  cols :: nat
  bit :: "nat \<Rightarrow> nat \<Rightarrow> bool"

text \<open>Python indexing of one dimension of size \<open>n\<close> by an integer: negative counts from the end.\<close>

definition py_index :: "int \<Rightarrow> nat \<Rightarrow> error + nat" where
  "py_index i n =
     (let j = (if i < 0 then int n + i else i)
      in if 0 \<le> j \<and> j < int n then Inr (nat j) else Inl IndexError)"

text \<open>
  Lines 37-42 of both files, for one tensor:
  \<open>if t.shape[2] != 1: center_px = (t.shape[2] - 1) // 2; t = t[:, :, center_px, center_px]\<close>.
  The same \<open>center_px\<close> indexes dimension 2 and dimension 3.
\<close>

definition center_crop :: "tensor4 \<Rightarrow> error + tensor" where
  "center_crop t =
     (if dim2 t \<noteq> 1 then
        (let center_px = (int (dim2 t) - 1) div 2 in
         (case py_index center_px (dim2 t) of Inl e \<Rightarrow> Inl e | Inr h \<Rightarrow>
         (case py_index center_px (dim3 t) of Inl e \<Rightarrow> Inl e | Inr w \<Rightarrow>
           Inr \<lparr>shape = [dim0 t, dim1 t],
                elt = (\<lambda>i. at4 t (i ! 0) (i ! 1) h w),
                req_grad = grad4 t\<rparr>)))
      else Inr \<lparr>shape = [dim0 t, dim1 t, dim2 t, dim3 t],
                elt = (\<lambda>i. at4 t (i ! 0) (i ! 1) (i ! 2) (i ! 3)),
                req_grad = grad4 t\<rparr>)"

text \<open>
  \<open>t.squeeze()\<close> drops every dimension of size 1. A cell of the squeezed tensor is the cell
  of \<open>t\<close> whose index has 0 at each dropped dimension.
\<close>

fun unsqueeze_index :: "nat list \<Rightarrow> nat list \<Rightarrow> nat list" where
  "unsqueeze_index [] i = []"
| "unsqueeze_index (d # ds) i =
     (if d = 1 then 0 # unsqueeze_index ds i
      else (case i of [] \<Rightarrow> [] | j # js \<Rightarrow> j # unsqueeze_index ds js))"

definition squeeze :: "tensor \<Rightarrow> tensor" where
  "squeeze t =
     \<lparr>shape = filter (\<lambda>d. d \<noteq> 1) (shape t),
      elt = (\<lambda>i. elt t (unsqueeze_index (shape t) i)),
      req_grad = req_grad t\<rparr>"

definition sigmoid :: "real \<Rightarrow> real" where
  "sigmoid x = 1 / (1 + exp (- x))"

definition map_tensor :: "(real \<Rightarrow> real) \<Rightarrow> tensor \<Rightarrow> tensor" where
  "map_tensor f t = t\<lparr>elt := (\<lambda>i. f (elt t i))\<rparr>"

text \<open>\<open>torch.diag(v)\<close> of a vector and \<open>torch.eye(n)\<close>.\<close>

definition diag :: "bool list \<Rightarrow> mask2" where
  "diag v = \<lparr>rows = length v, cols = length v, bit = (\<lambda>r c. r = c \<and> v ! r)\<rparr>"

definition eye :: "nat \<Rightarrow> mask2" where
  "eye n = \<lparr>rows = n, cols = n, bit = (\<lambda>r c. r = c)\<rparr>"

text \<open>All index tuples of a shape, in row-major order.\<close>

fun indices :: "nat list \<Rightarrow> nat list list" where
  "indices [] = [[]]"
| "indices (d # ds) = concat (map (\<lambda>i. map ((#) i) (indices ds)) [0..<d])"

text \<open>The cells under the true bits of a mask, in row-major order.\<close>

definition mask_cells :: "mask2 \<Rightarrow> (nat \<times> nat) list" where
  "mask_cells m = filter (\<lambda>(r, c). bit m r c) (List.product [0..<rows m] [0..<cols m])"

text \<open>
  \<open>t[m]\<close> for a two-dimensional mask \<open>m\<close>: an IndexError when \<open>t\<close> has fewer than two
  dimensions or its two leading dimensions are not the mask's shape; otherwise the cells
  under the true bits in row-major order (each with all its trailing dimensions), flattened.
\<close>

definition mask_index :: "tensor \<Rightarrow> mask2 \<Rightarrow> error + real list" where
  "mask_index t m =
     (if length (shape t) < 2 \<or> take 2 (shape t) \<noteq> [rows m, cols m] then Inl IndexError
      else Inr (concat (map (\<lambda>(r, c). map (\<lambda>j. elt t (r # c # j)) (indices (drop 2 (shape t))))
                  (mask_cells m))))"

text \<open>\<open>torch.arange(start, stop, step)\<close> with a positive step.\<close>

definition arange :: "nat \<Rightarrow> nat \<Rightarrow> nat \<Rightarrow> nat list" where
  "arange start stop step = map (\<lambda>k. start + k * step) [0..<(stop - start + step - 1) div step]"

text \<open>
  \<open>xs[idx] = vs\<close> for an index tensor \<open>idx\<close>, in the order torch checks it: indexing an
  empty \<open>xs\<close> with a non-empty index is an IndexError (index out of bounds for a dimension of
  size 0) raised while the index is prepared; then \<open>vs\<close> must have the length of \<open>idx\<close> or
  length 1 (RuntimeError, shape mismatch); then every index must be in range (IndexError).
\<close>

definition index_put :: "bool list \<Rightarrow> nat list \<Rightarrow> bool list \<Rightarrow> error + bool list" where
  "index_put xs idx vs =
     (if length xs = 0 \<and> idx \<noteq> [] then Inl IndexError
      else if length vs \<noteq> length idx \<and> length vs \<noteq> 1 then Inl RuntimeError
      else if \<exists>i \<in> set idx. \<not> i < length xs then Inl IndexError
      else Inr (fold (\<lambda>(i, v) ys. ys[i := v])
                  (zip idx (if length vs = length idx then vs else replicate (length idx) (hd vs)))
                  xs))"

text \<open>\<open>a | b\<close> on two label vectors, with broadcasting of a length-1 operand.\<close>

definition bitwise_or :: "bool list \<Rightarrow> bool list \<Rightarrow> error + bool list" where
  "bitwise_or xs ys =
     (if length xs = length ys then Inr (map2 (\<or>) xs ys)
      else if length xs = 1 then Inr (map (\<lambda>y. hd xs \<or> y) ys)
      else if length ys = 1 then Inr (map (\<lambda>x. x \<or> hd ys) xs)
      else Inl RuntimeError)"

text \<open>\<open>v.repeat_interleave(n)\<close> and \<open>torch.repeat_interleave(m, n, dim=0)\<close>.\<close>

definition repeat_interleave :: "bool list \<Rightarrow> nat \<Rightarrow> bool list" where
  "repeat_interleave v n = concat (map (replicate n) v)"

definition repeat_interleave_rows :: "mask2 \<Rightarrow> nat \<Rightarrow> mask2" where
  "repeat_interleave_rows m n =
     \<lparr>rows = rows m * n, cols = cols m, bit = (\<lambda>b c. bit m (b div n) c)\<rparr>"

text \<open>\<open>v[:, None] * m\<close>: the column \<open>v\<close> broadcast over the columns of \<open>m\<close>.\<close>

definition column_times :: "bool list \<Rightarrow> mask2 \<Rightarrow> mask2" where
  "column_times v m = \<lparr>rows = rows m, cols = cols m, bit = (\<lambda>b c. v ! b \<and> bit m b c)\<rparr>"

text \<open>\<open>m ^ v.unsqueeze(1)\<close>: exclusive or with the column \<open>v\<close> broadcast over the columns.\<close>

definition xor_column :: "mask2 \<Rightarrow> bool list \<Rightarrow> mask2" where
  "xor_column m v = \<lparr>rows = rows m, cols = cols m, bit = (\<lambda>r c. bit m r c \<noteq> v ! r)\<rparr>"

text \<open>\<open>t[idx]\<close> for an index tensor \<open>idx\<close>: the listed rows of \<open>t\<close>.\<close>

definition index_rows :: "tensor \<Rightarrow> nat list \<Rightarrow> error + tensor" where
  "index_rows t idx =
     (if shape t = [] \<or> (\<exists>i \<in> set idx. \<not> i < hd (shape t)) then Inl IndexError
      else Inr \<lparr>shape = length idx # tl (shape t),
                elt = (\<lambda>i. elt t ((idx ! hd i) # tl i)),
                req_grad = req_grad t\<rparr>)"

text \<open>\<open>m.sum()\<close> and \<open>m.sum(dim=0)[c]\<close> of a 0/1 tensor.\<close>

definition mask_sum :: "mask2 \<Rightarrow> nat" where
  "mask_sum m = length (mask_cells m)"

definition column_sum :: "mask2 \<Rightarrow> nat \<Rightarrow> nat" where
  "column_sum m c = length (filter (\<lambda>b. bit m b c) [0..<rows m])"

section \<open>The optional accumulator\<close>

text \<open>
  \<open>_add_if_not_none(x, y)\<close> is \<open>x + y if y is not None else x\<close>: the sum has the value
  \<open>x + y\<close>, tracks gradients when an operand does, and has \<open>y\<close> as one more addend; without
  \<open>y\<close> the result is \<open>x\<close> itself. \<open>x.detach()\<close> keeps the value only.
\<close>

definition add_if_not_none :: "accumulator \<Rightarrow> scalar option \<Rightarrow> accumulator" where
  "add_if_not_none x y =
     (case y of
        Some y' \<Rightarrow> \<lparr>item = item x + item y', requires_grad = (requires_grad x \<or> requires_grad y'),
                    addends = addends x @ [y']\<rparr>
      | None \<Rightarrow> x)"

definition detach :: "'a scalar_scheme \<Rightarrow> scalar" where
  "detach x = \<lparr>item = item x, requires_grad = False\<rparr>"

definition detach_if_not_none :: "scalar option \<Rightarrow> scalar option" where
  "detach_if_not_none x = (case x of Some x' \<Rightarrow> Some (detach x') | None \<Rightarrow> None)"

text \<open>
  \<open>torch.zeros(1, requires_grad=True)\<close>, as a term and as the tensor the total starts from:
  a leaf of the autograd graph, nothing has been added into it.
\<close>

definition zeros_grad :: scalar where
  "zeros_grad = \<lparr>item = 0, requires_grad = True\<rparr>"

definition zeros_leaf :: accumulator where
  "zeros_leaf = \<lparr>item = 0, requires_grad = True, addends = []\<rparr>"

section \<open>The part both variants share: lines up to the expanded inlier labels\<close>

text \<open>
  \<open>torch.sum(-1 * torch.log(torch.max(xs, epsilon)))\<close> over a flat selection.
\<close>

definition sum_neg_log :: "real \<Rightarrow> real list \<Rightarrow> real" where
  "sum_neg_log epsilon xs = sum_list (map (\<lambda>x. -1 * ln (max x epsilon)) xs)"

text \<open>
  \<open>expanded_inlier_labels = zeros(len(inlier_labels) * n);
  maximum_patch_index = arange(0, shape[0], n);
  expanded_inlier_labels[maximum_patch_index] = inlier_labels\<close>.
  \<open>arange\<close> raises a RuntimeError for a zero step.
\<close>

definition expand_inlier_labels :: "bool list \<Rightarrow> nat \<Rightarrow> nat \<Rightarrow> error + (nat list \<times> bool list)" where
  "expand_inlier_labels inlier_labels b num_patches_per_channel =
     (if num_patches_per_channel = 0 then Inl RuntimeError
      else
        let maximum_patch_index = arange 0 b num_patches_per_channel in
        (case index_put (replicate (length inlier_labels * num_patches_per_channel) False)
               maximum_patch_index inlier_labels of
          Inl e \<Rightarrow> Inl e
        | Inr expanded_inlier_labels \<Rightarrow> Inr (maximum_patch_index, expanded_inlier_labels)))"

section \<open>Variant A: \<open>OHNMClassicImipLoss\<close>\<close>

text \<open>
  Lines 88-96: absent when the outlier mask sums to zero; otherwise, per channel, the
  scores \<open>-1 * log(max(-1 * p + 1, epsilon))\<close> under the mask, summed over the rows and
  divided by the channel's outlier count (\<open>clamp_min(1.0)\<close>), then summed over channels.
\<close>

definition outlier_maximizer_loss_of ::
  "real \<Rightarrow> (nat \<Rightarrow> nat \<Rightarrow> real) \<Rightarrow> bool \<Rightarrow> mask2 \<Rightarrow> scalar option" where
  "outlier_maximizer_loss_of epsilon maximizer_outputs grad maxima_outlier_index_2d =
     (if mask_sum maxima_outlier_index_2d = 0 then None
      else
        let num_outliers_per_channel = (\<lambda>c. max (real (column_sum maxima_outlier_index_2d c)) 1);
            outlier_maximizer_scores =
              (\<lambda>b c. -1 * ln (max (-1 * maximizer_outputs b c + 1) epsilon))
        in Some \<lparr>item =
                   (\<Sum>c\<leftarrow>[0..<cols maxima_outlier_index_2d].
                      (\<Sum>b\<leftarrow>[0..<rows maxima_outlier_index_2d].
                         outlier_maximizer_scores b c * of_bool (bit maxima_outlier_index_2d b c))
                      / num_outliers_per_channel c),
                 requires_grad = grad\<rparr>)"

text \<open>
  \<open>forward_with_log_data\<close> of \<open>ohnm_avg_outlier_balanced_classic.py\<close>, in the order of the
  source. \<open>epsilon\<close> is the constructor's parameter (default \<open>1e-4\<close>). After the first
  check \<open>shape[1]\<close> is not zero, so the floor division of line 65 divides by a positive number.
  The result is the total loss and the log dictionary, its keys in the source's order.
\<close>

definition classic_forward_with_log_data ::
  "real \<Rightarrow> tensor4 \<Rightarrow> tensor4 \<Rightarrow> bool list \<Rightarrow> bool list
     \<Rightarrow> error + (accumulator \<times> (string \<times> scalar option) list)" where
  "classic_forward_with_log_data epsilon maximizer_outputs0 correspondence_outputs0
       inlier_labels outlier_labels =
   (if dim1 maximizer_outputs0 = 0 then Inl ZeroDivisionError
    else if dim0 maximizer_outputs0 mod dim1 maximizer_outputs0 \<noteq> 0 then Inl AssertionError
    else if dim2 maximizer_outputs0 \<noteq> dim3 maximizer_outputs0 then Inl AssertionError
    else
    (case center_crop maximizer_outputs0 of Inl e \<Rightarrow> Inl e | Inr maximizer_center \<Rightarrow>
    (case center_crop correspondence_outputs0 of Inl e \<Rightarrow> Inl e | Inr correspondence_center \<Rightarrow>
    let maximizer_outputs = map_tensor sigmoid (squeeze maximizer_center);
        correspondence_outputs = map_tensor sigmoid (squeeze correspondence_center);
        corr_outlier_index_2d = diag outlier_labels
    in
    (case mask_index correspondence_outputs corr_outlier_index_2d of Inl e \<Rightarrow> Inl e
    | Inr aligned_outlier_corr_outputs \<Rightarrow>
    let outlier_correspondence_loss =
          (if length aligned_outlier_corr_outputs = 0 then None
           else Some \<lparr>item = sum_neg_log epsilon aligned_outlier_corr_outputs,
                      requires_grad = req_grad correspondence_outputs\<rparr>)
    in
    if length (shape maximizer_outputs) < 2 then Inl IndexError
    else
    let num_patches_per_channel = shape maximizer_outputs ! 0 div shape maximizer_outputs ! 1
    in
    (case expand_inlier_labels inlier_labels (shape maximizer_outputs ! 0) num_patches_per_channel of
      Inl e \<Rightarrow> Inl e
    | Inr (maximum_patch_index, expanded_inlier_labels) \<Rightarrow>
    (case bitwise_or inlier_labels outlier_labels of Inl e \<Rightarrow> Inl e
    | Inr has_data_labels \<Rightarrow>
    let expanded_outlier_labels =
          map2 (\<and>) (repeat_interleave has_data_labels num_patches_per_channel)
            (map Not expanded_inlier_labels);
        maxima_inlier_index_2d =
          column_times expanded_inlier_labels
            (repeat_interleave_rows (eye (shape maximizer_outputs ! 1)) num_patches_per_channel);
        maxima_outlier_index_2d =
          column_times expanded_outlier_labels
            (repeat_interleave_rows (eye (shape maximizer_outputs ! 1)) num_patches_per_channel);
        outlier_maximizer_loss =
          outlier_maximizer_loss_of epsilon (\<lambda>b c. elt maximizer_outputs [b, c])
            (req_grad maximizer_outputs) maxima_outlier_index_2d
    in
    (case mask_index maximizer_outputs maxima_inlier_index_2d of Inl e \<Rightarrow> Inl e
    | Inr aligned_inlier_maximizer_scores \<Rightarrow>
    let inlier_loss =
          (if length aligned_inlier_maximizer_scores = 0 then None
           else Some \<lparr>item = sum_neg_log epsilon aligned_inlier_maximizer_scores,
                      requires_grad = req_grad maximizer_outputs\<rparr>)
    in
    (case index_rows maximizer_outputs maximum_patch_index of Inl e \<Rightarrow> Inl e
    | Inr maximizer_maxima \<Rightarrow>
    let unaligned_inlier_index = xor_column (diag inlier_labels) inlier_labels
    in
    (case mask_index maximizer_maxima unaligned_inlier_index of Inl e \<Rightarrow> Inl e
    | Inr unaligned_inlier_maximizer_scores \<Rightarrow>
    let unaligned_maximizer_loss =
          (if length unaligned_inlier_maximizer_scores = 0 then zeros_grad
           else \<lparr>item = sum_list unaligned_inlier_maximizer_scores,
                 requires_grad = req_grad maximizer_maxima\<rparr>);
        total_loss = zeros_leaf;
        total_loss = add_if_not_none total_loss outlier_correspondence_loss;
        total_loss = add_if_not_none total_loss outlier_maximizer_loss;
        total_loss = add_if_not_none total_loss inlier_loss;
        total_loss = add_if_not_none total_loss (Some unaligned_maximizer_loss)
    in
    Inr (total_loss,
         [(''loss'', Some (detach total_loss)),
          (''outlier_correspondence_loss'', detach_if_not_none outlier_correspondence_loss),
          (''outlier_maximizer_loss'', detach_if_not_none outlier_maximizer_loss),
          (''inlier_maximizer_loss'', detach_if_not_none inlier_loss),
          (''unaligned_maximizer_loss'', detach_if_not_none (Some unaligned_maximizer_loss))]))))))))))"

section \<open>Variant B: \<open>OHNMBCELoss\<close>\<close>

text \<open>
  Python's \<open>str\<close> of a non-negative integer: its decimal digits. The weight dictionary is
  keyed by this string.
\<close>

definition digit_char :: "nat \<Rightarrow> char" where
  "digit_char d = ''0123456789'' ! d"

fun str :: "nat \<Rightarrow> string" where
  "str n = (if n < 10 then [digit_char n] else str (n div 10) @ [digit_char (n mod 10)])"

declare str.simps [simp del]

text \<open>
  A float32 value as far as this model tells them apart: a real number, or \<open>None\<close> for NaN.
\<close>

type_synonym number = "real option"

text \<open>
  The expression of lines 35-37, at \<open>k\<close>:
  \<open>k * torch.log(k - 1) - torch.log((k - 1) / k) - k * torch.log(k) + 1\<close>.
  For \<open>k \<le> 1\<close> a logarithm is taken at zero or at a negative number and the expression is
  NaN (at \<open>k = 1\<close> it is \<open>-inf - -inf\<close>). For \<open>1 < k\<close> every logarithm is taken at a
  positive number, and the value given here is the exact real one; float32 evaluates the same
  expression with rounding, and the difference of the two large products can cancel to a
  rounded value of another sign than the real one, so nothing about the sign or size of the
  stored float is derived from this definition.
\<close>

definition weight_formula :: "real \<Rightarrow> number" where
  "weight_formula k =
     (if 1 < k then Some (k * ln (k - 1) - ln ((k - 1) / k) - k * ln k + 1) else None)"

text \<open>
  \<open>_get_bce_maxima_outlier_weight\<close> on a dictionary given as a map: the dictionary is read
  and, on a miss, extended with the value of the formula; the function returns
  \<open>dict[nppc_str]\<close> and the dictionary after the call. The argument is the quotient of two
  tensor sizes, so it is a natural number.
\<close>

definition get_bce_maxima_outlier_weight_dict ::
  "(string \<rightharpoonup> number) \<Rightarrow> nat \<Rightarrow> number \<times> (string \<rightharpoonup> number)" where
  "get_bce_maxima_outlier_weight_dict bce_maxima_outlier_weights num_patches_per_channel =
     (let nppc_str = str num_patches_per_channel in
      case bce_maxima_outlier_weights nppc_str of
        None \<Rightarrow>
          (let k = real num_patches_per_channel;
               w = weight_formula k
           in (w, bce_maxima_outlier_weights(nppc_str \<mapsto> w)))
      | Some w \<Rightarrow> (w, bce_maxima_outlier_weights))"

text \<open>
  The attribute \<open>_bce_maxima_outlier_weights\<close> of an instance. \<open>__init__\<close> builds it as
  \<open>{str(1): torch.tensor(1.0)}\<close>, and the only other statement that touches it is the
  assignment of line 35, which runs on a miss; no entry is ever removed. So the dictionary of
  an instance always holds a number under \<open>str(1)\<close> (the reads of \<open>[str(1)]\<close> at lines 32-33
  raise no KeyError, and a request for 1 is never a miss), and it holds NaN at most under
  \<open>str(0)\<close>, the only request whose formula is NaN. The type below is the type of such
  dictionaries; \<open>entries\<close> reads one as a map. \<open>init_weights\<close> is the dictionary \<open>__init__\<close>
  builds, \<open>store\<close> the assignment \<open>d[key] = torch.tensor(v)\<close> of a number, and
  \<open>get_bce_maxima_outlier_weight\<close> the method on the dictionary of the instance: it stays
  within the type.
\<close>

typedef weights =
  "{d :: string \<rightharpoonup> number.
      (\<exists>v. d (str 1) = Some (Some v)) \<and> (\<forall>key. d key = Some None \<longrightarrow> key = str 0)}"
  morphisms entries Abs_weights
  by (rule exI[of _ "[str 1 \<mapsto> Some 1]"]) simp

setup_lifting type_definition_weights

lift_definition init_weights :: weights is "[str 1 \<mapsto> Some 1]"
  by simp

lift_definition store :: "weights \<Rightarrow> string \<Rightarrow> real \<Rightarrow> weights" is "\<lambda>d key v. d(key \<mapsto> Some v)"
  by simp

lift_definition get_bce_maxima_outlier_weight :: "weights \<Rightarrow> nat \<Rightarrow> number \<times> weights"
  is get_bce_maxima_outlier_weight_dict
proof -
  fix d :: "string \<rightharpoonup> number" and n :: nat
  assume a: "(\<exists>v. d (str 1) = Some (Some v)) \<and> (\<forall>key. d key = Some None \<longrightarrow> key = str 0)"
  show "pred_prod top
          (\<lambda>d. (\<exists>v. d (str 1) = Some (Some v)) \<and> (\<forall>key. d key = Some None \<longrightarrow> key = str 0))
          (get_bce_maxima_outlier_weight_dict d n)"
  proof (cases "d (str n)")
    case (Some w)
    then show ?thesis using a by (simp add: get_bce_maxima_outlier_weight_dict_def)
  next
    case None
    then have n1: "str n \<noteq> str 1" using a by auto
    then have "n \<noteq> 1" by auto
    then have f: "weight_formula (real n) = None \<Longrightarrow> n = 0"
      by (cases n) (auto simp: weight_formula_def split: if_splits)
    show ?thesis using a None n1 f
      by (auto simp: get_bce_maxima_outlier_weight_dict_def Let_def)
  qed
qed

text \<open>
  \<open>torch.nn.functional.binary_cross_entropy_with_logits(input, target, weight,
  reduction="sum")\<close>, by its documented formula
  \<open>w * -(y * log(sigmoid(x)) + (1 - y) * log(1 - sigmoid(x)))\<close>; a target of another size
  than the input is a ValueError, a weight of another size here a RuntimeError. With a NaN
  weight the sum is NaN.
\<close>

definition bce_term :: "real \<Rightarrow> real \<Rightarrow> real \<Rightarrow> real" where
  "bce_term x y w = w * - (y * ln (sigmoid x) + (1 - y) * ln (1 - sigmoid x))"

definition binary_cross_entropy_with_logits ::
  "real list \<Rightarrow> real list \<Rightarrow> number list option \<Rightarrow> error + real" where
  "binary_cross_entropy_with_logits input target weight =
     (if length target \<noteq> length input then Inl ValueError
      else
        let ws = (case weight of None \<Rightarrow> replicate (length input) (Some 1) | Some ws \<Rightarrow> ws) in
        if length ws \<noteq> length input then Inl RuntimeError
        else if None \<in> set ws then Inl NotANumber
        else Inr (sum_list (map (\<lambda>(x, y, w). bce_term x y (the w)) (zip input (zip target ws)))))"

text \<open>\<open>xs[m]\<close> for a one-dimensional mask.\<close>

definition mask_index1 :: "bool list \<Rightarrow> bool list \<Rightarrow> error + bool list" where
  "mask_index1 xs m =
     (if length m \<noteq> length xs then Inl IndexError
      else Inr (map fst (filter snd (zip xs m))))"

text \<open>
  Lines 96-113: the labels of the patches with data, the weights (1 for an inlier target,
  the weight of the dictionary for an outlier target), and the weighted cross entropy over
  the cells \<open>maximizer_outputs[maxima_has_data_index_2d]\<close>. The weight is only requested
  when there is at least one label.
\<close>

definition maxima_losses_of ::
  "weights \<Rightarrow> tensor \<Rightarrow> bool list \<Rightarrow> bool list \<Rightarrow> bool list \<Rightarrow> nat
     \<Rightarrow> (error + scalar option) \<times> weights" where
  "maxima_losses_of bce_maxima_outlier_weights maximizer_outputs has_data_labels
       expanded_inlier_labels expanded_has_data_labels num_patches_per_channel =
     (case mask_index1 expanded_inlier_labels expanded_has_data_labels of
        Inl e \<Rightarrow> (Inl e, bce_maxima_outlier_weights)
      | Inr selected \<Rightarrow>
        let maxima_bce_labels = map of_bool selected :: real list in
        if length maxima_bce_labels = 0 then (Inr None, bce_maxima_outlier_weights)
        else
          let (w, weights') =
                get_bce_maxima_outlier_weight bce_maxima_outlier_weights num_patches_per_channel;
              maxima_weights = map (\<lambda>y. if \<not> (y \<noteq> 0) then w else Some 1) maxima_bce_labels;
              maxima_has_data_index_2d =
                repeat_interleave_rows
                  (column_times has_data_labels (eye (shape maximizer_outputs ! 1)))
                  num_patches_per_channel
          in
          (case mask_index maximizer_outputs maxima_has_data_index_2d of
            Inl e \<Rightarrow> (Inl e, weights')
          | Inr selected_outputs \<Rightarrow>
            (case binary_cross_entropy_with_logits selected_outputs maxima_bce_labels
                    (Some maxima_weights) of
               Inl e \<Rightarrow> (Inl e, weights')
             | Inr l \<Rightarrow>
                 (Inr (Some \<lparr>item = l, requires_grad = req_grad maximizer_outputs\<rparr>), weights'))))"

text \<open>
  \<open>forward_with_log_data\<close> of \<open>ohnm_outlier_balanced_bce.py\<close>, in the order of the source.
  The first component of the result is what the call returns or raises, the second is the
  weight dictionary of the instance after the call.
\<close>

definition bce_forward_with_log_data ::
  "weights \<Rightarrow> tensor4 \<Rightarrow> tensor4 \<Rightarrow> bool list \<Rightarrow> bool list
     \<Rightarrow> (error + (accumulator \<times> (string \<times> scalar option) list)) \<times> weights" where
  "bce_forward_with_log_data bce_maxima_outlier_weights maximizer_outputs0 correspondence_outputs0
       inlier_labels outlier_labels =
   (if dim1 maximizer_outputs0 = 0 then (Inl ZeroDivisionError, bce_maxima_outlier_weights)
    else if dim0 maximizer_outputs0 mod dim1 maximizer_outputs0 \<noteq> 0
      then (Inl AssertionError, bce_maxima_outlier_weights)
    else if dim2 maximizer_outputs0 \<noteq> dim3 maximizer_outputs0
      then (Inl AssertionError, bce_maxima_outlier_weights)
    else
    (case center_crop maximizer_outputs0 of Inl e \<Rightarrow> (Inl e, bce_maxima_outlier_weights)
    | Inr maximizer_center \<Rightarrow>
    (case center_crop correspondence_outputs0 of Inl e \<Rightarrow> (Inl e, bce_maxima_outlier_weights)
    | Inr correspondence_center \<Rightarrow>
    let maximizer_outputs = squeeze maximizer_center;
        correspondence_outputs = squeeze correspondence_center;
        corr_outlier_index_2d = diag outlier_labels
    in
    (case mask_index correspondence_outputs corr_outlier_index_2d of
      Inl e \<Rightarrow> (Inl e, bce_maxima_outlier_weights)
    | Inr aligned_outlier_corr_outputs \<Rightarrow>
    let aligned_corr_labels = replicate (length aligned_outlier_corr_outputs) 1
    in
    (case (if length aligned_outlier_corr_outputs = 0 then Inr None
          else (case binary_cross_entropy_with_logits aligned_outlier_corr_outputs
                       aligned_corr_labels None of
                  Inl e \<Rightarrow> Inl e
                | Inr l \<Rightarrow> Inr (Some \<lparr>item = l, requires_grad = req_grad correspondence_outputs\<rparr>)))
    of Inl e \<Rightarrow> (Inl e, bce_maxima_outlier_weights)
    | Inr aligned_corr_losses \<Rightarrow>
    if length (shape maximizer_outputs) < 2 then (Inl IndexError, bce_maxima_outlier_weights)
    else
    let num_patches_per_channel = shape maximizer_outputs ! 0 div shape maximizer_outputs ! 1
    in
    (case expand_inlier_labels inlier_labels (shape maximizer_outputs ! 0) num_patches_per_channel of
      Inl e \<Rightarrow> (Inl e, bce_maxima_outlier_weights)
    | Inr (maximum_patch_index, expanded_inlier_labels) \<Rightarrow>
    (case bitwise_or inlier_labels outlier_labels of
      Inl e \<Rightarrow> (Inl e, bce_maxima_outlier_weights)
    | Inr has_data_labels \<Rightarrow>
    let expanded_has_data_labels = repeat_interleave has_data_labels num_patches_per_channel
    in
    (case maxima_losses_of bce_maxima_outlier_weights maximizer_outputs has_data_labels
           expanded_inlier_labels expanded_has_data_labels num_patches_per_channel of
      (Inl e, weights') \<Rightarrow> (Inl e, weights')
    | (Inr maxima_losses, weights') \<Rightarrow>
    (case index_rows maximizer_outputs maximum_patch_index of Inl e \<Rightarrow> (Inl e, weights')
    | Inr maximizer_maxima \<Rightarrow>
    let aligned_inlier_index = diag inlier_labels;
        unaligned_inlier_index = xor_column aligned_inlier_index inlier_labels
    in
    (case mask_index maximizer_maxima unaligned_inlier_index of Inl e \<Rightarrow> (Inl e, weights')
    | Inr unaligned_inlier_outputs \<Rightarrow>
    (case (if length unaligned_inlier_outputs = 0 then Inr None
          else (case binary_cross_entropy_with_logits unaligned_inlier_outputs
                       (replicate (length unaligned_inlier_outputs) 0) None of
                  Inl e \<Rightarrow> Inl e
                | Inr l \<Rightarrow> Inr (Some \<lparr>item = l, requires_grad = req_grad maximizer_maxima\<rparr>)))
    of Inl e \<Rightarrow> (Inl e, weights')
    | Inr unaligned_maxima_losses \<Rightarrow>
    let total_loss = zeros_leaf;
        total_loss = add_if_not_none total_loss maxima_losses;
        total_loss = add_if_not_none total_loss aligned_corr_losses;
        total_loss = add_if_not_none total_loss unaligned_maxima_losses
    in
    (Inr (total_loss,
          [(''loss'', Some (detach total_loss)),
           (''bce_maximizer_loss'', detach_if_not_none maxima_losses),
           (''outlier_correspondence_loss'', detach_if_not_none aligned_corr_losses),
           (''unaligned_maximizer_loss'', detach_if_not_none unaligned_maxima_losses)]),
     weights'))))))))))))"

section \<open>Reading a result\<close>

text \<open>The total loss of a call that returned, and the entry of its log dictionary at a key.\<close>

definition total_loss_of :: "error + (accumulator \<times> (string \<times> scalar option) list) \<Rightarrow> accumulator option" where
  "total_loss_of r = (case r of Inl e \<Rightarrow> None | Inr (total_loss, log_data) \<Rightarrow> Some total_loss)"

definition log_entry ::
  "error + (accumulator \<times> (string \<times> scalar option) list) \<Rightarrow> string \<Rightarrow> scalar option option" where
  "log_entry r key = (case r of Inl e \<Rightarrow> None | Inr (total_loss, log_data) \<Rightarrow> map_of log_data key)"

text \<open>
  The terms of a list that are not None, in order; the tensors that were added into the
  total of a call that returned; and the entries of its log dictionary, other than the total
  itself, that are not None.
\<close>

fun present :: "scalar option list \<Rightarrow> scalar list" where
  "present [] = []"
| "present (None # ts) = present ts"
| "present (Some t # ts) = t # present ts"

definition accumulated :: "error + (accumulator \<times> (string \<times> scalar option) list) \<Rightarrow> scalar list" where
  "accumulated r = (case r of Inl e \<Rightarrow> [] | Inr (total_loss, log_data) \<Rightarrow> addends total_loss)"

definition logged_terms :: "error + (accumulator \<times> (string \<times> scalar option) list) \<Rightarrow> scalar list" where
  "logged_terms r =
     (case r of Inl e \<Rightarrow> []
      | Inr (total_loss, log_data) \<Rightarrow>
          present (map snd (filter (\<lambda>(key, v). key \<noteq> ''loss'') log_data)))"

section \<open>The losses of a call that passes every shape check\<close>

text \<open>
  A call is well shaped when the scores are \<open>C * N x C x S x S\<close> with at least two
  channels, one patch per channel and a non-empty footprint, the correspondence scores are
  \<open>C x C x S' x S'\<close>, and both label vectors have length \<open>C\<close>. Such a call reads the
  score tensors only at the centre of the footprint.
\<close>

definition well_shaped :: "tensor4 \<Rightarrow> tensor4 \<Rightarrow> bool list \<Rightarrow> bool list \<Rightarrow> bool" where
  "well_shaped mo co il ol =
     (2 \<le> dim1 mo \<and> 0 < dim0 mo \<and> dim0 mo mod dim1 mo = 0 \<and> dim2 mo = dim3 mo \<and> 0 < dim2 mo
      \<and> dim0 co = dim1 mo \<and> dim1 co = dim1 mo \<and> dim2 co = dim3 co \<and> 0 < dim2 co
      \<and> length il = dim1 mo \<and> length ol = dim1 mo)"

definition centre_cell :: "tensor4 \<Rightarrow> nat \<Rightarrow> nat \<Rightarrow> real" where
  "centre_cell t b c = at4 t b c ((dim2 t - 1) div 2) ((dim2 t - 1) div 2)"

definition prob :: "tensor4 \<Rightarrow> nat \<Rightarrow> nat \<Rightarrow> real" where
  "prob t b c = sigmoid (centre_cell t b c)"

definition patches :: "tensor4 \<Rightarrow> nat" where
  "patches mo = dim0 mo div dim1 mo"

text \<open>The values of a matrix under a mask, in row-major order.\<close>

definition select :: "(nat \<Rightarrow> nat \<Rightarrow> real) \<Rightarrow> mask2 \<Rightarrow> real list" where
  "select p m = map (\<lambda>(r, c). p r c) (mask_cells m)"

text \<open>The expanded inlier labels: the label of channel \<open>k\<close> at row \<open>k * n\<close>, zero elsewhere.\<close>

definition expanded_inlier :: "bool list \<Rightarrow> nat \<Rightarrow> bool list" where
  "expanded_inlier il n = map (\<lambda>b. b mod n = 0 \<and> il ! (b div n)) [0..<length il * n]"

text \<open>The four masks, as the source builds them.\<close>

definition maxima_inlier_index :: "bool list \<Rightarrow> nat \<Rightarrow> mask2" where
  "maxima_inlier_index il n =
     column_times (expanded_inlier il n) (repeat_interleave_rows (eye (length il)) n)"

definition maxima_outlier_index :: "bool list \<Rightarrow> bool list \<Rightarrow> nat \<Rightarrow> mask2" where
  "maxima_outlier_index il ol n =
     column_times
       (map2 (\<and>) (repeat_interleave (map2 (\<or>) il ol) n) (map Not (expanded_inlier il n)))
       (repeat_interleave_rows (eye (length il)) n)"

definition unaligned_inlier_index :: "bool list \<Rightarrow> mask2" where
  "unaligned_inlier_index il = xor_column (diag il) il"

text \<open>The terms of Variant A on probabilities \<open>p\<close> (scores) and \<open>q\<close> (correspondences).\<close>

definition classic_outlier_correspondence_loss ::
  "real \<Rightarrow> (nat \<Rightarrow> nat \<Rightarrow> real) \<Rightarrow> bool \<Rightarrow> bool list \<Rightarrow> scalar option" where
  "classic_outlier_correspondence_loss epsilon q g ol =
     (if length (select q (diag ol)) = 0 then None
      else Some \<lparr>item = sum_neg_log epsilon (select q (diag ol)), requires_grad = g\<rparr>)"

definition classic_outlier_maximizer_loss ::
  "real \<Rightarrow> (nat \<Rightarrow> nat \<Rightarrow> real) \<Rightarrow> bool \<Rightarrow> bool list \<Rightarrow> bool list \<Rightarrow> nat \<Rightarrow> scalar option" where
  "classic_outlier_maximizer_loss epsilon p g il ol n =
     outlier_maximizer_loss_of epsilon p g (maxima_outlier_index il ol n)"

definition classic_inlier_loss ::
  "real \<Rightarrow> (nat \<Rightarrow> nat \<Rightarrow> real) \<Rightarrow> bool \<Rightarrow> bool list \<Rightarrow> nat \<Rightarrow> scalar option" where
  "classic_inlier_loss epsilon p g il n =
     (if length (select p (maxima_inlier_index il n)) = 0 then None
      else Some \<lparr>item = sum_neg_log epsilon (select p (maxima_inlier_index il n)),
                 requires_grad = g\<rparr>)"

definition classic_unaligned_maximizer_loss ::
  "(nat \<Rightarrow> nat \<Rightarrow> real) \<Rightarrow> bool \<Rightarrow> bool list \<Rightarrow> nat \<Rightarrow> scalar" where
  "classic_unaligned_maximizer_loss p g il n =
     (if length (select (\<lambda>r c. p (r * n) c) (unaligned_inlier_index il)) = 0 then zeros_grad
      else \<lparr>item = sum_list (select (\<lambda>r c. p (r * n) c) (unaligned_inlier_index il)),
            requires_grad = g\<rparr>)"

definition classic_result ::
  "scalar option \<Rightarrow> scalar option \<Rightarrow> scalar option \<Rightarrow> scalar
     \<Rightarrow> accumulator \<times> (string \<times> scalar option) list" where
  "classic_result outlier_correspondence_loss outlier_maximizer_loss inlier_loss
       unaligned_maximizer_loss =
     (let total_loss = zeros_leaf;
          total_loss = add_if_not_none total_loss outlier_correspondence_loss;
          total_loss = add_if_not_none total_loss outlier_maximizer_loss;
          total_loss = add_if_not_none total_loss inlier_loss;
          total_loss = add_if_not_none total_loss (Some unaligned_maximizer_loss)
      in (total_loss,
          [(''loss'', Some (detach total_loss)),
           (''outlier_correspondence_loss'', detach_if_not_none outlier_correspondence_loss),
           (''outlier_maximizer_loss'', detach_if_not_none outlier_maximizer_loss),
           (''inlier_maximizer_loss'', detach_if_not_none inlier_loss),
           (''unaligned_maximizer_loss'', detach_if_not_none (Some unaligned_maximizer_loss))]))"

text \<open>The terms of Variant B on the raw scores \<open>x\<close> and correspondences \<open>y\<close>.\<close>

definition bce_outlier_correspondence_loss ::
  "(nat \<Rightarrow> nat \<Rightarrow> real) \<Rightarrow> bool \<Rightarrow> bool list \<Rightarrow> scalar option" where
  "bce_outlier_correspondence_loss y g ol =
     (if length (select y (diag ol)) = 0 then None
      else Some \<lparr>item = (\<Sum>v\<leftarrow>select y (diag ol). bce_term v 1 1), requires_grad = g\<rparr>)"

text \<open>
  The rows of the channels with data (inlier or outlier), and the maxima term over them. In
  a well-shaped call there is at least one patch per channel, and the weight returned for a
  positive number of patches is a real, never NaN.
\<close>

definition has_data_rows :: "bool list \<Rightarrow> bool list \<Rightarrow> nat \<Rightarrow> nat list" where
  "has_data_rows il ol n = filter (\<lambda>b. map2 (\<or>) il ol ! (b div n)) [0..<length il * n]"

definition bce_maximizer_loss ::
  "weights \<Rightarrow> (nat \<Rightarrow> nat \<Rightarrow> real) \<Rightarrow> bool \<Rightarrow> bool list \<Rightarrow> bool list \<Rightarrow> nat
     \<Rightarrow> scalar option \<times> weights" where
  "bce_maximizer_loss ws x g il ol n =
     (if length (has_data_rows il ol n) = 0 then (None, ws)
      else
        let (w, ws') = get_bce_maxima_outlier_weight ws n
        in (Some \<lparr>item = (\<Sum>b\<leftarrow>has_data_rows il ol n.
                     bce_term (x b (b div n)) (of_bool (expanded_inlier il n ! b))
                       (if expanded_inlier il n ! b then 1 else the w)),
                   requires_grad = g\<rparr>, ws'))"

definition bce_unaligned_maximizer_loss ::
  "(nat \<Rightarrow> nat \<Rightarrow> real) \<Rightarrow> bool \<Rightarrow> bool list \<Rightarrow> nat \<Rightarrow> scalar option" where
  "bce_unaligned_maximizer_loss x g il n =
     (if length (select (\<lambda>r c. x (r * n) c) (unaligned_inlier_index il)) = 0 then None
      else Some \<lparr>item = (\<Sum>v\<leftarrow>select (\<lambda>r c. x (r * n) c) (unaligned_inlier_index il). bce_term v 0 1),
                 requires_grad = g\<rparr>)"

definition bce_result ::
  "scalar option \<Rightarrow> scalar option \<Rightarrow> scalar option \<Rightarrow> accumulator \<times> (string \<times> scalar option) list" where
  "bce_result maxima_losses aligned_corr_losses unaligned_maxima_losses =
     (let total_loss = zeros_leaf;
          total_loss = add_if_not_none total_loss maxima_losses;
          total_loss = add_if_not_none total_loss aligned_corr_losses;
          total_loss = add_if_not_none total_loss unaligned_maxima_losses
      in (total_loss,
          [(''loss'', Some (detach total_loss)),
           (''bce_maximizer_loss'', detach_if_not_none maxima_losses),
           (''outlier_correspondence_loss'', detach_if_not_none aligned_corr_losses),
           (''unaligned_maximizer_loss'', detach_if_not_none unaligned_maxima_losses)]))"

text \<open>
  The weight a dictionary built by the class holds for \<open>n\<close>: the stored 1 for \<open>n = 1\<close>, the
  formula otherwise; and the dictionaries the class can reach.
\<close>

definition outlier_weight :: "nat \<Rightarrow> number" where
  "outlier_weight n = (if n = 1 then Some 1 else weight_formula (real n))"

definition weights_inv :: "weights \<Rightarrow> bool" where
  "weights_inv ws =
     (entries ws (str 1) = Some (Some 1)
      \<and> (\<forall>n v. entries ws (str n) = Some v \<longrightarrow> v = outlier_weight n))"

text \<open>
  A score tensor with a \<open>1 x 1\<close> footprint, from the list of its rows
  (\<open>torch.tensor(rows).view(B, C, 1, 1)\<close>), gradient-tracked.
\<close>

definition of_rows :: "real list list \<Rightarrow> tensor4" where
  "of_rows xs =
     \<lparr>dim0 = length xs, dim1 = length (hd xs), dim2 = 1, dim3 = 1,
      at4 = (\<lambda>b c h w. xs ! b ! c), grad4 = True\<rparr>"

text \<open>The value a log entry contributes to the total: its item, nothing when it is absent.\<close>

definition entry_item ::
  "error + (accumulator \<times> (string \<times> scalar option) list) \<Rightarrow> string \<Rightarrow> real" where
  "entry_item r key = (case log_entry r key of Some (Some s) \<Rightarrow> item s | _ \<Rightarrow> 0)"

section \<open>Facts about the tensor operations\<close>

lemma py_index_centre:
  assumes "2 \<le> s"
  shows "py_index ((int s - 1) div 2) s = Inr ((s - 1) div 2)"
proof -
  have a: "(int s - 1) div 2 = int ((s - 1) div 2)" using assms by (simp add: of_nat_diff zdiv_int)
  have b: "(s - 1) div 2 < s" using assms by simp
  show ?thesis unfolding a py_index_def Let_def using b by simp
qed

lemma squeeze_center_crop:
  assumes "dim2 t = dim3 t" "0 < dim2 t" "dim0 t \<noteq> 1" "dim1 t \<noteq> 1"
  shows "\<exists>ct. center_crop t = Inr ct \<and> shape (squeeze ct) = [dim0 t, dim1 t]
           \<and> (\<forall>b c. elt (squeeze ct) [b, c] = centre_cell t b c)
           \<and> req_grad (squeeze ct) = grad4 t"
proof (cases "dim2 t = 1")
  case True
  then show ?thesis using assms
    by (simp add: center_crop_def squeeze_def centre_cell_def)
next
  case False
  then have "2 \<le> dim2 t" using assms by simp
  then show ?thesis using assms False py_index_centre[of "dim2 t"]
    by (simp add: center_crop_def squeeze_def centre_cell_def Let_def)
qed

lemma arange_patches: "0 < n \<Longrightarrow> arange 0 (c * n) n = map (\<lambda>k. k * n) [0..<c]"
proof -
  assume n: "0 < n"
  have "c * n + n - 1 = c * n + (n - 1)" using n by (cases n) simp_all
  moreover have "(c * n + (n - 1)) div n = c + (n - 1) div n"
    by (rule div_mult_self3) (use n in simp)
  moreover have "(n - 1) div n = 0" using n by simp
  ultimately have "(c * n + n - 1) div n = c" by (simp only: add_0_right)
  then show ?thesis by (simp add: arange_def)
qed

lemma concat_singletons: "concat (map (\<lambda>x. [f x]) xs) = map f xs"
  by (induction xs) simp_all

lemma mask_index_rank2:
  assumes "shape t = [rows m, cols m]"
  shows "mask_index t m = Inr (map (\<lambda>(r, c). elt t [r, c]) (mask_cells m))"
proof -
  have "(\<lambda>(r, c). map (\<lambda>j. elt t (r # c # j)) [[]]) = (\<lambda>x. [(\<lambda>(r, c). elt t [r, c]) x])"
    by (simp add: fun_eq_iff split: prod.splits)
  then show ?thesis using assms by (simp add: mask_index_def concat_singletons)
qed

lemma repeat_interleave_length: "length (repeat_interleave v n) = length v * n"
  by (induction v) (simp_all add: repeat_interleave_def)

lemma repeat_interleave_nth:
  "b < length v * n \<Longrightarrow> repeat_interleave v n ! b = v ! (b div n)"
proof (induction v arbitrary: b)
  case Nil
  then show ?case by simp
next
  case (Cons x xs)
  have n: "0 < n" using Cons.prems by (cases n) simp_all
  show ?case
  proof (cases "b < n")
    case True
    then show ?thesis by (simp add: repeat_interleave_def nth_append)
  next
    case False
    then have "b - n < length xs * n" using Cons.prems by simp
    then have "repeat_interleave xs n ! (b - n) = xs ! ((b - n) div n)" by (rule Cons.IH)
    moreover have "b div n = Suc ((b - n) div n)" using False n
      by (simp add: le_div_geq)
    ultimately show ?thesis using False by (simp add: repeat_interleave_def nth_append)
  qed
qed


lemma mask_cells_bounds: "(r, c) \<in> set (mask_cells m) \<Longrightarrow> r < rows m \<and> c < cols m"
  by (auto simp: mask_cells_def)

lemma mask_index_select:
  assumes "shape t = [rows m, cols m]"
    and "\<And>r c. r < rows m \<Longrightarrow> c < cols m \<Longrightarrow> elt t [r, c] = p r c"
  shows "mask_index t m = Inr (select p m)"
proof -
  have "map (\<lambda>(r, c). elt t [r, c]) (mask_cells m) = map (\<lambda>(r, c). p r c) (mask_cells m)"
    by (rule map_cong) (auto dest: mask_cells_bounds simp: assms(2))
  then show ?thesis using mask_index_rank2[OF assms(1)] by (simp add: select_def)
qed

lemma fold_update_length:
  "length (fold (\<lambda>(i, v) ys. ys[i := v]) ps xs) = length xs"
  by (induction ps arbitrary: xs) (auto split: prod.splits)

lemma fold_index_put:
  assumes n: "0 < n"
  shows "m \<le> length il \<Longrightarrow>
     fold (\<lambda>(i, v) ys. ys[i := v]) (zip (map (\<lambda>k. k * n) [0..<m]) (take m il)) base
       = map (\<lambda>b. if b mod n = 0 \<and> b div n < m then il ! (b div n) else base ! b) [0..<length base]"
proof (induction m)
  case 0
  then show ?case by (simp add: map_nth)
next
  case (Suc m)
  let ?f = "\<lambda>(i, v) ys. ys[i := v]"
  let ?g = "\<lambda>m b. if b mod n = 0 \<and> b div n < m then il ! (b div n) else base ! b"
  have m: "m < length il" using Suc.prems by simp
  have z: "zip (map (\<lambda>k. k * n) [0..<Suc m]) (take (Suc m) il)
          = zip (map (\<lambda>k. k * n) [0..<m]) (take m il) @ [(m * n, il ! m)]"
    using m by (simp add: take_Suc_conv_app_nth)
  have ih: "fold ?f (zip (map (\<lambda>k. k * n) [0..<m]) (take m il)) base = map (?g m) [0..<length base]"
    using Suc.IH m by simp
  have "fold ?f (zip (map (\<lambda>k. k * n) [0..<Suc m]) (take (Suc m) il)) base
          = (map (?g m) [0..<length base])[m * n := il ! m]"
    unfolding z by (simp add: ih)
  also have "\<dots> = map (?g (Suc m)) [0..<length base]"
  proof (rule nth_equalityI)
    show "length ((map (?g m) [0..<length base])[m * n := il ! m]) = length (map (?g (Suc m)) [0..<length base])"
      by simp
  next
    fix b assume "b < length ((map (?g m) [0..<length base])[m * n := il ! m])"
    then have b: "b < length base" by simp
    show "(map (?g m) [0..<length base])[m * n := il ! m] ! b = map (?g (Suc m)) [0..<length base] ! b"
    proof (cases "b = m * n")
      case True
      then show ?thesis using b n by simp
    next
      case False
      have "b mod n = 0 \<Longrightarrow> b div n = m \<Longrightarrow> False"
      proof -
        assume a: "b mod n = 0" "b div n = m"
        have "b = b div n * n + b mod n" by simp
        then show False using a False by simp
      qed
      then have "(b mod n = 0 \<and> b div n < Suc m) = (b mod n = 0 \<and> b div n < m)"
        by (auto simp: less_Suc_eq)
      then show ?thesis using b False by simp
    qed
  qed
  finally show ?case .
qed

lemma expand_inlier_labels_ok:
  assumes n: "0 < n"
  shows "expand_inlier_labels il (length il * n) n
           = Inr (map (\<lambda>k. k * n) [0..<length il], expanded_inlier il n)"
proof -
  have a: "arange 0 (length il * n) n = map (\<lambda>k. k * n) [0..<length il]"
    using n by (rule arange_patches)
  have b: "\<not> (\<exists>i \<in> set (map (\<lambda>k. k * n) [0..<length il]). \<not> i < length (replicate (length il * n) False))"
    using n by auto
  have c: "fold (\<lambda>(i, v) ys. ys[i := v]) (zip (map (\<lambda>k. k * n) [0..<length il]) il)
             (replicate (length il * n) False) = expanded_inlier il n"
  proof -
    have "fold (\<lambda>(i, v) ys. ys[i := v]) (zip (map (\<lambda>k. k * n) [0..<length il]) (take (length il) il))
             (replicate (length il * n) False)
          = map (\<lambda>b. if b mod n = 0 \<and> b div n < length il then il ! (b div n)
                      else replicate (length il * n) False ! b) [0..<length (replicate (length il * n) False)]"
      by (rule fold_index_put[OF n]) simp
    also have "\<dots> = expanded_inlier il n"
      unfolding expanded_inlier_def
      by (rule map_cong) (use n in \<open>auto simp: less_mult_imp_div_less\<close>)
    finally show ?thesis by simp
  qed
  show ?thesis
    using n b c by (simp add: expand_inlier_labels_def a index_put_def del: replicate.simps)
qed

lemma well_shapedD:
  assumes "well_shaped mo co il ol"
  shows "dim0 mo = length il * patches mo" "0 < patches mo" "dim0 mo \<noteq> 1" "dim1 mo \<noteq> 1"
    "dim1 mo \<noteq> 0" "dim0 mo mod dim1 mo = 0" "dim2 mo = dim3 mo" "0 < dim2 mo"
    "dim0 co = length il" "dim1 co = length il" "dim2 co = dim3 co" "0 < dim2 co"
    "length ol = length il" "dim1 mo = length il" "2 \<le> length il"
proof -
  have c: "2 \<le> dim1 mo" "0 < dim0 mo" "dim0 mo mod dim1 mo = 0" "length il = dim1 mo"
    using assms by (simp_all add: well_shaped_def)
  have d: "dim0 mo = dim1 mo * (dim0 mo div dim1 mo)" using c(3) by auto
  show "dim0 mo = length il * patches mo" using d c(4) by (simp add: patches_def)
  show p: "0 < patches mo" using d c(2) by (cases "dim0 mo div dim1 mo") (auto simp: patches_def)
  have "dim1 mo \<le> dim0 mo" using c(1,2,3) by (auto intro: dvd_imp_le)
  then show "dim0 mo \<noteq> 1" using c(1) by simp
  show "dim1 mo \<noteq> 1" "dim1 mo \<noteq> 0" using c(1) by simp_all
  show "dim0 mo mod dim1 mo = 0" by (rule c(3))
  show "dim2 mo = dim3 mo" "0 < dim2 mo" "dim0 co = length il" "dim1 co = length il"
    "dim2 co = dim3 co" "0 < dim2 co" "length ol = length il" "dim1 mo = length il" "2 \<le> length il"
    using assms by (simp_all add: well_shaped_def)
qed

lemma classic_forward_well_shaped:
  assumes ws: "well_shaped mo co il ol"
  shows "classic_forward_with_log_data eps mo co il ol =
     Inr (classic_result
            (classic_outlier_correspondence_loss eps (prob co) (grad4 co) ol)
            (classic_outlier_maximizer_loss eps (prob mo) (grad4 mo) il ol (patches mo))
            (classic_inlier_loss eps (prob mo) (grad4 mo) il (patches mo))
            (classic_unaligned_maximizer_loss (prob mo) (grad4 mo) il (patches mo)))"
proof -
  note d = well_shapedD[OF ws]
  let ?n = "patches mo"
  let ?C = "length il"
  obtain mc where mc: "center_crop mo = Inr mc" "shape (squeeze mc) = [dim0 mo, dim1 mo]"
      "\<And>b c. elt (squeeze mc) [b, c] = centre_cell mo b c" "req_grad (squeeze mc) = grad4 mo"
    using squeeze_center_crop[of mo] d by blast
  obtain cc where cc: "center_crop co = Inr cc" "shape (squeeze cc) = [dim0 co, dim1 co]"
      "\<And>b c. elt (squeeze cc) [b, c] = centre_cell co b c" "req_grad (squeeze cc) = grad4 co"
    using squeeze_center_crop[of co] d by force
  let ?M = "map_tensor sigmoid (squeeze mc)"
  let ?Q = "map_tensor sigmoid (squeeze cc)"
  have M: "shape ?M = [?C * ?n, ?C]" "\<And>b c. elt ?M [b, c] = prob mo b c" "req_grad ?M = grad4 mo"
    using mc d(1,14) by (simp_all add: map_tensor_def prob_def)
  have Q: "shape ?Q = [?C, ?C]" "\<And>b c. elt ?Q [b, c] = prob co b c" "req_grad ?Q = grad4 co"
    using cc d by (simp_all add: map_tensor_def prob_def)
  have s1: "mask_index ?Q (diag ol) = Inr (select (prob co) (diag ol))"
    by (rule mask_index_select) (simp_all add: Q diag_def d)
  have s2: "expand_inlier_labels il (?C * ?n) ?n = Inr (map (\<lambda>k. k * ?n) [0..<?C], expanded_inlier il ?n)"
    by (rule expand_inlier_labels_ok) (rule d(2))
  have s3: "bitwise_or il ol = Inr (map2 (\<or>) il ol)"
    by (simp add: bitwise_or_def d)
  have s4: "mask_index ?M (column_times (expanded_inlier il ?n) (repeat_interleave_rows (eye ?C) ?n))
      = Inr (select (prob mo) (maxima_inlier_index il ?n))"
    unfolding maxima_inlier_index_def
    by (rule mask_index_select) (simp_all add: M column_times_def repeat_interleave_rows_def eye_def)
  let ?R = "\<lparr>shape = [?C, ?C], elt = (\<lambda>i. elt ?M ((map (\<lambda>k. k * ?n) [0..<?C] ! hd i) # tl i)),
              req_grad = grad4 mo\<rparr>"
  have s5: "index_rows ?M (map (\<lambda>k. k * ?n) [0..<?C]) = Inr ?R"
    using d(2) by (auto simp add: index_rows_def M)
  have s6: "mask_index ?R (xor_column (diag il) il)
      = Inr (select (\<lambda>r c. prob mo (r * ?n) c) (unaligned_inlier_index il))"
    unfolding unaligned_inlier_index_def
    by (rule mask_index_select) (simp_all add: M xor_column_def diag_def)
  have s7: "(\<lambda>b c. elt ?M [b, c]) = prob mo"
    by (simp add: fun_eq_iff M)
  have n: "?C * ?n div ?C = ?n" using d(15) by auto
  have div: "dim0 mo div dim1 mo = ?n" by (simp add: patches_def)
  show ?thesis
    unfolding classic_forward_with_log_data_def
    using d(5,6,7)
    by (simp add: mc(1) cc(1) M Q s1 s2 s3 s4 s5 s6 s7 n
        classic_result_def classic_outlier_correspondence_loss_def classic_outlier_maximizer_loss_def
        classic_inlier_loss_def classic_unaligned_maximizer_loss_def maxima_outlier_index_def Let_def
        del: upt.simps)
qed

lemma filter_eq_singleton:
  "distinct ys \<Longrightarrow> a \<in> set ys \<Longrightarrow> filter (\<lambda>c. a = c) ys = [a]"
proof (induction ys)
  case Nil
  then show ?case by simp
next
  case (Cons y ys)
  show ?case
  proof (cases "a = y")
    case True
    then have "a \<notin> set ys" using Cons.prems by simp
    then have "filter (\<lambda>c. a = c) ys = []" by (auto simp: filter_empty_conv)
    then show ?thesis using True by simp
  next
    case False
    then show ?thesis using Cons by auto
  qed
qed

lemma filter_product_graph:
  assumes "distinct ys" "\<And>b. b \<in> set xs \<Longrightarrow> f b \<in> set ys"
  shows "filter (\<lambda>(b, c). Q b \<and> f b = c) (List.product xs ys) = map (\<lambda>b. (b, f b)) (filter Q xs)"
  using assms(2)
proof (induction xs)
  case Nil
  then show ?case by simp
next
  case (Cons x xs)
  have "filter (\<lambda>(b, c). Q b \<and> f b = c) (map (Pair x) ys)
          = map (Pair x) (filter (\<lambda>c. Q x \<and> f x = c) ys)"
    by (simp add: filter_map comp_def)
  also have "filter (\<lambda>c. Q x \<and> f x = c) ys = (if Q x then [f x] else [])"
    using filter_eq_singleton[OF assms(1), of "f x"] Cons.prems by simp
  finally have h: "filter (\<lambda>(b, c). Q b \<and> f b = c) (map (Pair x) ys) = (if Q x then [(x, f x)] else [])"
    by simp
  have t: "filter (\<lambda>(b, c). Q b \<and> f b = c) (List.product xs ys) = map (\<lambda>b. (b, f b)) (filter Q xs)"
    using Cons by simp
  show ?case by (simp add: h t)
qed

lemma mask_cells_diag: "mask_cells (diag v) = map (\<lambda>c. (c, c)) (filter (\<lambda>c. v ! c) [0..<length v])"
proof -
  have "filter (\<lambda>(b, c). v ! b \<and> b = c) (List.product [0..<length v] [0..<length v])
          = map (\<lambda>b. (b, b)) (filter (\<lambda>b. v ! b) [0..<length v])"
    by (rule filter_product_graph) simp_all
  moreover have "(\<lambda>(r, c). r = c \<and> v ! r) = (\<lambda>(b, c). v ! b \<and> b = c)"
    by (auto simp: fun_eq_iff)
  ultimately show ?thesis by (simp add: mask_cells_def diag_def)
qed

lemma mask_cells_has_data:
  assumes "0 < n"
  shows "mask_cells (repeat_interleave_rows (column_times h (eye k)) n)
           = map (\<lambda>b. (b, b div n)) (filter (\<lambda>b. h ! (b div n)) [0..<k * n])"
proof -
  have "filter (\<lambda>(b, c). h ! (b div n) \<and> b div n = c) (List.product [0..<k * n] [0..<k])
          = map (\<lambda>b. (b, b div n)) (filter (\<lambda>b. h ! (b div n)) [0..<k * n])"
    by (rule filter_product_graph) (use assms in \<open>auto simp: less_mult_imp_div_less\<close>)
  then show ?thesis
    by (simp add: mask_cells_def repeat_interleave_rows_def column_times_def eye_def)
qed

lemma zip_filter_snd:
  "length xs = length ys \<Longrightarrow>
     map fst (filter snd (zip xs ys)) = map (\<lambda>b. xs ! b) (filter (\<lambda>b. ys ! b) [0..<length ys])"
proof (induction xs ys rule: list_induct2)
  case Nil
  then show ?case by simp
next
  case (Cons x xs y ys)
  have u: "[0..<Suc (length ys)] = 0 # map Suc [0..<length ys]"
    by (simp add: upt_conv_Cons map_Suc_upt del: upt_Suc)
  show ?case using Cons.IH
    by (simp add: u filter_map comp_def del: upt_Suc)
qed

lemma bce_constant:
  "binary_cross_entropy_with_logits xs (replicate (length xs) a) None
     = Inr (\<Sum>v\<leftarrow>xs. bce_term v a 1)"
proof -
  have "map (\<lambda>(x, y, w). bce_term x y (the w))
            (zip xs (zip (replicate (length xs) a) (replicate (length xs) (Some 1))))
          = map (\<lambda>v. bce_term v a 1) xs"
    by (induction xs) simp_all
  then show ?thesis by (simp add: binary_cross_entropy_with_logits_def)
qed

lemma bce_maps:
  "binary_cross_entropy_with_logits (map f bs) (map g bs) (Some (map (\<lambda>b. Some (h b)) bs))
     = Inr (\<Sum>b\<leftarrow>bs. bce_term (f b) (g b) (h b))"
proof -
  have "map (\<lambda>(x, y, w). bce_term x y (the w))
            (zip (map f bs) (zip (map g bs) (map (\<lambda>b. Some (h b)) bs)))
          = map (\<lambda>b. bce_term (f b) (g b) (h b)) bs"
    by (induction bs) simp_all
  moreover have "None \<notin> set (map (\<lambda>b. Some (h b)) bs)"
    by auto
  ultimately show ?thesis by (simp add: binary_cross_entropy_with_logits_def)
qed

lemma digit_char_inj: "a < 10 \<Longrightarrow> b < 10 \<Longrightarrow> digit_char a = digit_char b \<Longrightarrow> a = b"
proof -
  assume a: "a < 10" and b: "b < 10" and e: "digit_char a = digit_char b"
  have d: "distinct ''0123456789''" by simp
  have "(''0123456789'' ! a = ''0123456789'' ! b) = (a = b)"
    by (rule nth_eq_iff_index_eq[OF d]) (use a b in simp_all)
  then show "a = b" using e by (simp add: digit_char_def)
qed

lemma str_nonempty: "str n \<noteq> []"
  by (subst str.simps) simp

lemma str_inj: "str n = str m \<Longrightarrow> n = m"
proof (induction n arbitrary: m rule: str.induct)
  case (1 n)
  show ?case
  proof (cases "n < 10")
    case True
    show ?thesis
    proof (cases "m < 10")
      case m: True
      have "[digit_char n] = [digit_char m]"
        using "1.prems" True m by (subst (asm) str.simps, subst (asm) (2) str.simps) simp
      then show ?thesis using True m by (auto dest: digit_char_inj)
    next
      case m: False
      have "[digit_char n] = str (m div 10) @ [digit_char (m mod 10)]"
        using "1.prems" True m by (subst (asm) str.simps, subst (asm) (2) str.simps) simp
      then show ?thesis using str_nonempty[of "m div 10"] by simp
    qed
  next
    case False
    show ?thesis
    proof (cases "m < 10")
      case m: True
      have "str (n div 10) @ [digit_char (n mod 10)] = [digit_char m]"
        using "1.prems" False m by (subst (asm) str.simps, subst (asm) (2) str.simps) simp
      then show ?thesis using str_nonempty[of "n div 10"] by simp
    next
      case m: False
      have "str (n div 10) @ [digit_char (n mod 10)] = str (m div 10) @ [digit_char (m mod 10)]"
        using "1.prems" False m by (subst (asm) str.simps, subst (asm) (2) str.simps) simp
      then have e: "str (n div 10) = str (m div 10)" "digit_char (n mod 10) = digit_char (m mod 10)"
        by simp_all
      have "n div 10 = m div 10" using "1.IH"[OF False e(1)] .
      moreover have "n mod 10 = m mod 10" by (rule digit_char_inj) (use e(2) in simp_all)
      ultimately show ?thesis by (metis div_mult_mod_eq)
    qed
  qed
qed

lemma entries_1: "\<exists>v. entries ws (str 1) = Some (Some v)"
  using entries[of ws] by simp

lemma entries_nan: "entries ws (str n) = Some None \<Longrightarrow> n = 0"
proof -
  assume "entries ws (str n) = Some None"
  then have "str n = str 0" using entries[of ws] by simp
  then show "n = 0" by (rule str_inj)
qed

lemma get_weight_fst:
  "fst (get_bce_maxima_outlier_weight ws n)
     = fst (get_bce_maxima_outlier_weight_dict (entries ws) n)"
  using arg_cong[OF get_bce_maxima_outlier_weight.rep_eq[of ws n], of fst] by simp

lemma get_weight_snd:
  "entries (snd (get_bce_maxima_outlier_weight ws n))
     = snd (get_bce_maxima_outlier_weight_dict (entries ws) n)"
  using arg_cong[OF get_bce_maxima_outlier_weight.rep_eq[of ws n], of snd] by simp

lemma get_weight_hit:
  assumes "entries ws (str n) = Some v"
  shows "get_bce_maxima_outlier_weight ws n = (v, ws)"
proof (rule prod_eqI)
  show "fst (get_bce_maxima_outlier_weight ws n) = fst (v, ws)"
    using assms by (simp add: get_weight_fst get_bce_maxima_outlier_weight_dict_def)
  have "entries (snd (get_bce_maxima_outlier_weight ws n)) = entries ws"
    using assms by (simp add: get_weight_snd get_bce_maxima_outlier_weight_dict_def)
  then show "snd (get_bce_maxima_outlier_weight ws n) = snd (v, ws)"
    by (simp add: entries_inject)
qed

lemma get_weight_miss:
  assumes "entries ws (str n) = None"
  shows "fst (get_bce_maxima_outlier_weight ws n) = weight_formula (real n)"
    and "entries (snd (get_bce_maxima_outlier_weight ws n))
           = (entries ws)(str n \<mapsto> weight_formula (real n))"
  using assms
  by (simp_all add: get_weight_fst get_weight_snd get_bce_maxima_outlier_weight_dict_def Let_def)

lemma get_weight_defined:
  assumes "0 < n"
  shows "\<exists>w. fst (get_bce_maxima_outlier_weight ws n) = Some w"
proof (cases "entries ws (str n)")
  case None
  then have "n \<noteq> 1" using entries_1[of ws] by auto
  then have "1 < real n" using assms by simp
  then show ?thesis by (simp add: get_weight_miss(1)[OF None] weight_formula_def)
next
  case (Some v)
  then have "v \<noteq> None" using entries_nan[of ws n] assms by auto
  then show ?thesis using get_weight_hit[OF Some] by auto
qed

lemma expanded_inlier_length: "length (expanded_inlier il n) = length il * n"
  by (simp add: expanded_inlier_def)

lemma has_data_rows_eq:
  assumes "length ol = length il"
  shows "filter (\<lambda>b. repeat_interleave (map2 (\<or>) il ol) n ! b) [0..<length il * n] = has_data_rows il ol n"
  unfolding has_data_rows_def
  by (rule filter_cong) (use assms in \<open>simp_all add: repeat_interleave_nth\<close>)

lemma maxima_losses_of_ok:
  assumes n: "0 < n" and len: "length ol = length il"
    and M: "shape M = [length il * n, length il]" "\<And>b c. elt M [b, c] = x b c" "req_grad M = g"
  shows "maxima_losses_of ws M (map2 (\<or>) il ol) (expanded_inlier il n)
            (repeat_interleave (map2 (\<or>) il ol) n) n
           = (Inr (fst (bce_maximizer_loss ws x g il ol n)), snd (bce_maximizer_loss ws x g il ol n))"
proof -
  let ?bs = "has_data_rows il ol n"
  let ?ei = "expanded_inlier il n"
  let ?eh = "repeat_interleave (map2 (\<or>) il ol) n"
  have l: "length ?eh = length ?ei"
    using len by (simp add: repeat_interleave_length expanded_inlier_length)
  have l2: "length ?eh = length il * n" using len by (simp add: repeat_interleave_length)
  have a: "mask_index1 ?ei ?eh = Inr (map (\<lambda>b. ?ei ! b) ?bs)"
    using zip_filter_snd[of ?ei ?eh] l l2 has_data_rows_eq[OF len, of n]
    by (simp add: mask_index1_def)
  have b: "mask_index M (repeat_interleave_rows (column_times (map2 (\<or>) il ol) (eye (length il))) n)
             = Inr (map (\<lambda>b. x b (b div n)) ?bs)"
  proof -
    have "mask_index M (repeat_interleave_rows (column_times (map2 (\<or>) il ol) (eye (length il))) n)
            = Inr (select x (repeat_interleave_rows (column_times (map2 (\<or>) il ol) (eye (length il))) n))"
      by (rule mask_index_select)
         (simp_all add: M repeat_interleave_rows_def column_times_def eye_def)
    then show ?thesis
      by (simp add: select_def mask_cells_has_data[OF n] has_data_rows_def comp_def)
  qed
  obtain w ws' where g: "get_bce_maxima_outlier_weight ws n = (Some w, ws')"
    using get_weight_defined[OF n, of ws] by (cases "get_bce_maxima_outlier_weight ws n") auto
  have e: "map of_bool (map (\<lambda>b. ?ei ! b) ?bs) = map (\<lambda>b. of_bool (?ei ! b) :: real) ?bs"
    by simp
  have h: "map (\<lambda>y. if y = 0 then Some w else Some 1) (map (\<lambda>b. of_bool (?ei ! b) :: real) ?bs)
             = map (\<lambda>b. Some (if ?ei ! b then 1 else w)) ?bs"
    by simp
  have c: "binary_cross_entropy_with_logits (map (\<lambda>b. x b (b div n)) ?bs)
             (map (\<lambda>b. of_bool (?ei ! b)) ?bs)
             (Some (map (\<lambda>y. if y = 0 then Some w else Some 1)
                      (map (\<lambda>b. of_bool (?ei ! b) :: real) ?bs)))
           = Inr (\<Sum>b\<leftarrow>?bs. bce_term (x b (b div n)) (of_bool (?ei ! b)) (if ?ei ! b then 1 else w))"
    unfolding h by (rule bce_maps)
  show ?thesis
    unfolding maxima_losses_of_def bce_maximizer_loss_def
    by (simp add: a b e c g M Let_def del: map_map cong: if_cong)
qed

lemma bce_forward_well_shaped:
  assumes ws: "well_shaped mo co il ol"
  shows "bce_forward_with_log_data w mo co il ol =
     (Inr (bce_result
            (fst (bce_maximizer_loss w (centre_cell mo) (grad4 mo) il ol (patches mo)))
            (bce_outlier_correspondence_loss (centre_cell co) (grad4 co) ol)
            (bce_unaligned_maximizer_loss (centre_cell mo) (grad4 mo) il (patches mo))),
      snd (bce_maximizer_loss w (centre_cell mo) (grad4 mo) il ol (patches mo)))"
proof -
  note d = well_shapedD[OF ws]
  let ?n = "patches mo"
  let ?C = "length il"
  obtain mc where mc: "center_crop mo = Inr mc" "shape (squeeze mc) = [dim0 mo, dim1 mo]"
      "\<And>b c. elt (squeeze mc) [b, c] = centre_cell mo b c" "req_grad (squeeze mc) = grad4 mo"
    using squeeze_center_crop[of mo] d by blast
  obtain cc where cc: "center_crop co = Inr cc" "shape (squeeze cc) = [dim0 co, dim1 co]"
      "\<And>b c. elt (squeeze cc) [b, c] = centre_cell co b c" "req_grad (squeeze cc) = grad4 co"
    using squeeze_center_crop[of co] d by force
  let ?M = "squeeze mc"
  let ?Q = "squeeze cc"
  have M: "shape ?M = [?C * ?n, ?C]" "\<And>b c. elt ?M [b, c] = centre_cell mo b c" "req_grad ?M = grad4 mo"
    using mc d(1,14) by simp_all
  have Q: "shape ?Q = [?C, ?C]" "\<And>b c. elt ?Q [b, c] = centre_cell co b c" "req_grad ?Q = grad4 co"
    using cc d by simp_all
  have s1: "mask_index ?Q (diag ol) = Inr (select (centre_cell co) (diag ol))"
    by (rule mask_index_select) (simp_all add: Q diag_def d)
  have s2: "expand_inlier_labels il (?C * ?n) ?n = Inr (map (\<lambda>k. k * ?n) [0..<?C], expanded_inlier il ?n)"
    by (rule expand_inlier_labels_ok) (rule d(2))
  have s3: "bitwise_or il ol = Inr (map2 (\<or>) il ol)"
    by (simp add: bitwise_or_def d)
  have s4: "maxima_losses_of w ?M (map2 (\<or>) il ol) (expanded_inlier il ?n)
            (repeat_interleave (map2 (\<or>) il ol) ?n) ?n
           = (Inr (fst (bce_maximizer_loss w (centre_cell mo) (grad4 mo) il ol ?n)),
              snd (bce_maximizer_loss w (centre_cell mo) (grad4 mo) il ol ?n))"
    by (rule maxima_losses_of_ok[OF d(2) d(13) M])
  let ?R = "\<lparr>shape = [?C, ?C], elt = (\<lambda>i. elt ?M ((map (\<lambda>k. k * ?n) [0..<?C] ! hd i) # tl i)),
              req_grad = grad4 mo\<rparr>"
  have s5: "index_rows ?M (map (\<lambda>k. k * ?n) [0..<?C]) = Inr ?R"
    using d(2) by (auto simp add: index_rows_def M)
  have s6: "mask_index ?R (xor_column (diag il) il)
      = Inr (select (\<lambda>r c. centre_cell mo (r * ?n) c) (unaligned_inlier_index il))"
    unfolding unaligned_inlier_index_def
    by (rule mask_index_select) (simp_all add: M xor_column_def diag_def)
  have n: "?C * ?n div ?C = ?n" using d(15) by auto
  show ?thesis
    unfolding bce_forward_with_log_data_def
    using d(5,6,7)
    by (simp add: mc(1) cc(1) M Q s1 s2 s3 s4 s5 s6 n bce_constant
        bce_result_def bce_outlier_correspondence_loss_def bce_unaligned_maximizer_loss_def Let_def
        del: upt.simps)
qed

lemma py_index_error: "py_index i n = Inl e \<Longrightarrow> e = IndexError"
  by (auto simp: py_index_def Let_def split: if_splits)

lemma center_crop_error: "center_crop t = Inl e \<Longrightarrow> e = IndexError"
  by (auto simp: center_crop_def Let_def split: if_splits sum.splits dest: py_index_error)

lemma mask_index_error: "mask_index t m = Inl e \<Longrightarrow> e = IndexError"
  by (auto simp: mask_index_def split: if_splits)

lemma center_crop_shape:
  "center_crop t = Inr ct \<Longrightarrow> dim2 t = dim3 t
     \<Longrightarrow> filter (\<lambda>d. d \<noteq> 1) (shape ct) = filter (\<lambda>d. d \<noteq> 1) [dim0 t, dim1 t]"
  by (auto simp: center_crop_def Let_def split: if_splits sum.splits)

lemma single_channel_rank:
  assumes "center_crop t = Inr ct" "dim2 t = dim3 t" "dim1 t = 1"
  shows "length (shape (squeeze ct)) < 2"
  using center_crop_shape[OF assms(1,2)] assms(3) by (simp add: squeeze_def)

section \<open>C10: a call with one channel\<close>

text \<open>
  C10. For every call with exactly one channel (\<open>C = 1\<close>) and a square footprint, whatever
  the batch size, the values and the labels, both variants raise an IndexError instead of
  returning: squeezing drops the channel dimension, so \<open>shape[1]\<close> of the squeezed scores
  (or, earlier, the masked indexing of the squeezed correspondence tensor) is out of range.
  \<open>B mod 1 = 0\<close> holds for every \<open>B\<close>, so the documented preconditions do not exclude
  such a call.
\<close>

theorem single_channel_index_error:
  assumes "dim1 mo = 1" "dim2 mo = dim3 mo"
  shows "classic_forward_with_log_data eps mo co il ol = Inl IndexError
       \<and> fst (bce_forward_with_log_data w mo co il ol) = Inl IndexError"
proof
  show "classic_forward_with_log_data eps mo co il ol = Inl IndexError"
    unfolding classic_forward_with_log_data_def
    using assms
    by (auto simp: Let_def map_tensor_def split: sum.splits
          dest: center_crop_error mask_index_error single_channel_rank)
next
  show "fst (bce_forward_with_log_data w mo co il ol) = Inl IndexError"
    unfolding bce_forward_with_log_data_def
    using assms
    by (auto simp: Let_def bce_constant split: sum.splits
          dest: center_crop_error mask_index_error single_channel_rank)
qed

theorem single_channel_index_error_witness:
  "dim1 \<lparr>dim0 = 1, dim1 = 1, dim2 = 1, dim3 = 1, at4 = (\<lambda>b c h w. 0), grad4 = True\<rparr> = 1
   \<and> dim2 \<lparr>dim0 = 1, dim1 = 1, dim2 = 1, dim3 = 1, at4 = (\<lambda>b c h w. 0), grad4 = True\<rparr>
       = dim3 \<lparr>dim0 = 1, dim1 = 1, dim2 = 1, dim3 = 1, at4 = (\<lambda>b c h w. 0), grad4 = True\<rparr>
   \<and> classic_forward_with_log_data (1 / 10000)
        \<lparr>dim0 = 1, dim1 = 1, dim2 = 1, dim3 = 1, at4 = (\<lambda>b c h w. 0), grad4 = True\<rparr>
        \<lparr>dim0 = 1, dim1 = 1, dim2 = 1, dim3 = 1, at4 = (\<lambda>b c h w. 0), grad4 = True\<rparr>
        [True] [False] = Inl IndexError
   \<and> fst (bce_forward_with_log_data init_weights
        \<lparr>dim0 = 1, dim1 = 1, dim2 = 1, dim3 = 1, at4 = (\<lambda>b c h w. 0), grad4 = True\<rparr>
        \<lparr>dim0 = 1, dim1 = 1, dim2 = 1, dim3 = 1, at4 = (\<lambda>b c h w. 0), grad4 = True\<rparr>
        [True] [False]) = Inl IndexError"
  using single_channel_index_error[of
        "\<lparr>dim0 = 1, dim1 = 1, dim2 = 1, dim3 = 1, at4 = (\<lambda>b c h w. 0), grad4 = True\<rparr>"
        "1 / 10000"
        "\<lparr>dim0 = 1, dim1 = 1, dim2 = 1, dim3 = 1, at4 = (\<lambda>b c h w. 0), grad4 = True\<rparr>"
        "[True]" "[False]" init_weights]
  by simp

section \<open>The weight dictionary\<close>

lemma weights_inv_init: "weights_inv init_weights"
  by (auto simp: weights_inv_def init_weights.rep_eq outlier_weight_def dest: str_inj split: if_splits)

lemma weights_invD:
  assumes "weights_inv ws"
  shows "entries ws (str 1) = Some (Some 1)" "entries ws (str n) = Some v \<Longrightarrow> v = outlier_weight n"
  using assms unfolding weights_inv_def by blast+

lemma get_weight_value:
  assumes "weights_inv ws"
  shows "fst (get_bce_maxima_outlier_weight ws n) = outlier_weight n"
proof (cases "entries ws (str n)")
  case None
  then have "n \<noteq> 1" using entries_1[of ws] by auto
  then show ?thesis by (simp add: get_weight_miss(1)[OF None] outlier_weight_def)
next
  case (Some v)
  then show ?thesis using weights_invD(2)[OF assms Some] by (simp add: get_weight_hit)
qed

lemma get_weight_inv:
  assumes "weights_inv ws"
  shows "weights_inv (snd (get_bce_maxima_outlier_weight ws n))"
proof (cases "entries ws (str n)")
  case None
  then have n1: "n \<noteq> 1" using entries_1[of ws] by auto
  let ?ws' = "snd (get_bce_maxima_outlier_weight ws n)"
  have e: "entries ?ws' = (entries ws)(str n \<mapsto> weight_formula (real n))"
    by (rule get_weight_miss(2)[OF None])
  have s1: "str 1 \<noteq> str n" using n1 by (auto dest: str_inj)
  have "entries ?ws' (str 1) = Some (Some 1)" using weights_invD(1)[OF assms] s1 by (simp add: e)
  moreover have "v = outlier_weight m" if "entries ?ws' (str m) = Some v" for m v
  proof (cases "str m = str n")
    case True
    then have "m = n" by (rule str_inj)
    then show ?thesis using that n1 by (simp add: outlier_weight_def e)
  next
    case False
    then show ?thesis using that weights_invD(2)[OF assms, of m v] by (simp add: e)
  qed
  ultimately show ?thesis unfolding weights_inv_def by blast
next
  case (Some v)
  then show ?thesis using assms by (simp add: get_weight_hit)
qed

lemma get_weight_stored:
  "entries (snd (get_bce_maxima_outlier_weight ws n)) (str n)
     = Some (fst (get_bce_maxima_outlier_weight ws n))"
proof (cases "entries ws (str n)")
  case None
  then show ?thesis by (simp add: get_weight_miss[OF None])
next
  case (Some v)
  then show ?thesis by (simp add: get_weight_hit)
qed

lemma get_weight_again:
  "get_bce_maxima_outlier_weight (snd (get_bce_maxima_outlier_weight ws n)) n
     = (fst (get_bce_maxima_outlier_weight ws n), snd (get_bce_maxima_outlier_weight ws n))"
  by (rule get_weight_hit) (rule get_weight_stored)

section \<open>C5: the outlier weight and its memoization\<close>

lemma weight_formula_1: "weight_formula 1 = None"
  by (simp add: weight_formula_def)

lemma weight_formula_closed:
  "2 \<le> n \<Longrightarrow> weight_formula (real n)
     = Some (real n * ln (real n - 1) - ln ((real n - 1) / real n) - real n * ln (real n) + 1)"
  by (simp add: weight_formula_def)

lemma get_weight_new:
  assumes "2 \<le> n" "entries ws (str n) = None"
  shows "get_bce_maxima_outlier_weight ws n
           = (Some (real n * ln (real n - 1) - ln ((real n - 1) / real n) - real n * ln (real n) + 1),
              store ws (str n)
                (real n * ln (real n - 1) - ln ((real n - 1) / real n) - real n * ln (real n) + 1))"
proof (rule prod_eqI)
  let ?w = "real n * ln (real n - 1) - ln ((real n - 1) / real n) - real n * ln (real n) + 1"
  show "fst (get_bce_maxima_outlier_weight ws n) = fst (Some ?w, store ws (str n) ?w)"
    by (simp add: get_weight_miss(1)[OF assms(2)] weight_formula_closed[OF assms(1)])
  have "entries (snd (get_bce_maxima_outlier_weight ws n)) = entries (store ws (str n) ?w)"
    by (simp add: get_weight_miss(2)[OF assms(2)] weight_formula_closed[OF assms(1)] store.rep_eq)
  then show "snd (get_bce_maxima_outlier_weight ws n) = snd (Some ?w, store ws (str n) ?w)"
    by (simp add: entries_inject)
qed


lemma init_2: "entries init_weights (str 2) = None"
  by (auto simp: init_weights.rep_eq dest: str_inj)



section \<open>C8: one patch per channel\<close>

lemma mask_index1_error: "mask_index1 xs m = Inl e \<Longrightarrow> e = IndexError"
  by (auto simp: mask_index1_def split: if_splits)

lemma maxima_losses_of_not_nan:
  assumes "0 < n"
  shows "fst (maxima_losses_of ws M h ei eh n) \<noteq> Inl NotANumber"
proof -
  obtain w ws' where g: "get_bce_maxima_outlier_weight ws n = (Some w, ws')"
    using get_weight_defined[OF assms, of ws] by (cases "get_bce_maxima_outlier_weight ws n") auto
  show ?thesis
    unfolding maxima_losses_of_def
    by (auto simp: g Let_def binary_cross_entropy_with_logits_def
          split: sum.splits if_splits dest: mask_index1_error mask_index_error)
qed

lemma maxima_losses_of_nan:
  "maxima_losses_of ws M h ei eh n = (Inl NotANumber, ws') \<Longrightarrow> n = 0"
  using maxima_losses_of_not_nan[of n ws M h ei eh] by (cases n) auto

lemma expand_inlier_labels_0: "expand_inlier_labels il b 0 = Inl RuntimeError"
  by (simp add: expand_inlier_labels_def)

lemma expand_inlier_labels_error:
  "expand_inlier_labels il b n = Inl e \<Longrightarrow> e = RuntimeError \<or> e = IndexError"
  by (auto simp: expand_inlier_labels_def index_put_def Let_def split: if_splits sum.splits)

lemma bitwise_or_error: "bitwise_or xs ys = Inl e \<Longrightarrow> e = RuntimeError"
  by (auto simp: bitwise_or_def split: if_splits)

lemma index_rows_error: "index_rows t idx = Inl e \<Longrightarrow> e = IndexError"
  by (auto simp: index_rows_def split: if_splits)

lemma bce_forward_not_nan:
  "fst (bce_forward_with_log_data ws mo co il ol) \<noteq> Inl NotANumber"
  unfolding bce_forward_with_log_data_def
  by (auto simp: Let_def bce_constant expand_inlier_labels_0
        split: sum.splits prod.splits if_splits
        dest: center_crop_error mask_index_error expand_inlier_labels_error bitwise_or_error
              index_rows_error maxima_losses_of_nan)

text \<open>
  C8. At \<open>k = 1\<close> the formula has no value (it is NaN). Every dictionary of an instance holds
  the key \<open>str(1)\<close>, so a request for one patch per channel takes the branch that reads the
  dictionary: it returns the entry of \<open>str(1)\<close>, whatever it holds, and stores nothing; the
  formula is not evaluated. On the dictionaries the class can hold that entry is 1. No call
  of \<open>forward_with_log_data\<close>, on any input and any dictionary, has a NaN weight in its loss.
  A well-shaped call with as many rows as channels has one patch per channel and leaves the
  dictionary unchanged.
\<close>

theorem single_patch_weight_is_stored:
  "weight_formula 1 = None
   \<and> entries ws (str 1) = Some (fst (get_bce_maxima_outlier_weight ws 1))
   \<and> fst (get_bce_maxima_outlier_weight ws 1) \<noteq> None
   \<and> snd (get_bce_maxima_outlier_weight ws 1) = ws
   \<and> (weights_inv ws \<longrightarrow>
        entries ws (str 1) = Some (Some 1) \<and> get_bce_maxima_outlier_weight ws 1 = (Some 1, ws))
   \<and> fst (bce_forward_with_log_data ws mo co il ol) \<noteq> Inl NotANumber
   \<and> (well_shaped mo co il ol \<and> dim0 mo = dim1 mo \<longrightarrow>
        patches mo = 1 \<and> snd (bce_forward_with_log_data ws mo co il ol) = ws)"
proof -
  obtain v where v: "entries ws (str 1) = Some (Some v)" using entries_1[of ws] by auto
  have b: "get_bce_maxima_outlier_weight ws 1 = (Some v, ws)"
    by (rule get_weight_hit[OF v])
  have c: "entries ws (str 1) = Some (Some 1) \<and> get_bce_maxima_outlier_weight ws 1 = (Some 1, ws)"
    if "weights_inv ws"
    using weights_invD(1)[OF that] b v by simp
  have d: "patches mo = 1 \<and> snd (bce_forward_with_log_data ws mo co il ol) = ws"
    if w: "well_shaped mo co il ol \<and> dim0 mo = dim1 mo"
  proof -
    have p: "patches mo = 1" using w by (simp add: patches_def well_shaped_def)
    show ?thesis
      using p b w by (simp add: bce_forward_well_shaped bce_maximizer_loss_def)
  qed
  have e: "entries ws (str 1) = Some (fst (get_bce_maxima_outlier_weight ws 1))"
      "fst (get_bce_maxima_outlier_weight ws 1) \<noteq> None"
      "snd (get_bce_maxima_outlier_weight ws 1) = ws"
    using b v by simp_all
  show ?thesis
    using weight_formula_1 e c d bce_forward_not_nan[of ws mo co il ol]
    by blast
qed

theorem single_patch_weight_is_stored_witness:
  "weights_inv init_weights
   \<and> well_shaped (of_rows [[0, 0], [0, 0]]) (of_rows [[0, 0], [0, 0]]) [False, False] [True, True]
   \<and> dim0 (of_rows [[0, 0], [0, 0]]) = dim1 (of_rows [[0, 0], [0, 0]])
   \<and> get_bce_maxima_outlier_weight init_weights 1 = (Some 1, init_weights)
   \<and> fst (bce_forward_with_log_data init_weights (of_rows [[0, 0], [0, 0]])
            (of_rows [[0, 0], [0, 0]]) [False, False] [True, True]) \<noteq> Inl NotANumber
   \<and> snd (bce_forward_with_log_data init_weights (of_rows [[0, 0], [0, 0]])
            (of_rows [[0, 0], [0, 0]]) [False, False] [True, True]) = init_weights"
  using single_patch_weight_is_stored[
          of init_weights "of_rows [[0, 0], [0, 0]]" "of_rows [[0, 0], [0, 0]]"
             "[False, False]" "[True, True]"]
        weights_inv_init
  by (simp add: well_shaped_def of_rows_def)

lemma squeezed_rank2:
  assumes "center_crop t = Inr ct" "dim2 t = dim3 t" "\<not> length (shape (squeeze ct)) < 2"
  shows "shape (squeeze ct) = [dim0 t, dim1 t]"
  using center_crop_shape[OF assms(1,2)] assms(3)
  by (auto simp: squeeze_def split: if_splits)

lemma maxima_losses_of_fst:
  assumes "fst (get_bce_maxima_outlier_weight ws1 n) = fst (get_bce_maxima_outlier_weight ws2 n)"
  shows "fst (maxima_losses_of ws1 M h ei eh n) = fst (maxima_losses_of ws2 M h ei eh n)"
  unfolding maxima_losses_of_def Let_def split_beta assms
  by (simp split: sum.splits)

lemma maxima_losses_of_snd:
  "snd (maxima_losses_of ws M h ei eh n) = ws
   \<or> snd (maxima_losses_of ws M h ei eh n) = snd (get_bce_maxima_outlier_weight ws n)"
  by (simp add: maxima_losses_of_def Let_def split_beta split: sum.splits)

lemma bce_forward_fst:
  assumes "\<And>n. fst (get_bce_maxima_outlier_weight ws1 n) = fst (get_bce_maxima_outlier_weight ws2 n)"
  shows "fst (bce_forward_with_log_data ws1 mo co il ol) = fst (bce_forward_with_log_data ws2 mo co il ol)"
proof -
  have g: "\<And>M h ei eh n. fst (maxima_losses_of ws1 M h ei eh n) = fst (maxima_losses_of ws2 M h ei eh n)"
    by (rule maxima_losses_of_fst) (rule assms)
  show ?thesis
    unfolding bce_forward_with_log_data_def
    by (simp add: Let_def split_beta g bce_constant split: sum.splits)
qed

lemma bce_forward_snd:
  "snd (bce_forward_with_log_data ws mo co il ol) = ws
   \<or> snd (bce_forward_with_log_data ws mo co il ol) = snd (get_bce_maxima_outlier_weight ws (patches mo))"
proof (cases "center_crop mo")
  case (Inl e)
  then show ?thesis by (simp add: bce_forward_with_log_data_def)
next
  case (Inr mc)
  show ?thesis
  proof (cases "dim2 mo = dim3 mo \<and> \<not> length (shape (squeeze mc)) < 2")
    case False
    then show ?thesis
      unfolding bce_forward_with_log_data_def
      by (auto simp: Inr Let_def bce_constant split: sum.splits)
  next
    case True
    then have sh: "shape (squeeze mc) = [dim0 mo, dim1 mo]"
      using squeezed_rank2[OF Inr] by simp
    have g: "snd (maxima_losses_of ws M h ei eh (dim0 mo div dim1 mo)) = ws
       \<or> snd (maxima_losses_of ws M h ei eh (dim0 mo div dim1 mo))
            = snd (get_bce_maxima_outlier_weight ws (dim0 mo div dim1 mo))"
      for M h ei eh by (rule maxima_losses_of_snd)
    show ?thesis
      unfolding bce_forward_with_log_data_def patches_def
      using g
      by (auto simp: Inr sh Let_def split_beta bce_constant split: sum.splits)
  qed
qed

section \<open>C9: a second call with the same inputs\<close>

text \<open>
  C9. The classic loss assigns no attribute in \<open>forward_with_log_data\<close>, so its embedding
  is a function of \<open>epsilon\<close> and the four inputs alone. The cross-entropy loss reads and
  extends the weight dictionary; for all inputs, also those that raise: any two
  dictionaries the class can hold give the same outcome (the same total and log dictionary,
  or the same exception), the dictionary after a call is again one the class can hold, and
  a second call with the same inputs on the instance gives the outcome of the first and
  changes the dictionary no further.
\<close>

theorem bce_forward_deterministic:
  assumes "weights_inv ws" "weights_inv ws'"
  shows "fst (bce_forward_with_log_data ws' mo co il ol) = fst (bce_forward_with_log_data ws mo co il ol)
       \<and> weights_inv (snd (bce_forward_with_log_data ws mo co il ol))
       \<and> bce_forward_with_log_data (snd (bce_forward_with_log_data ws mo co il ol)) mo co il ol
           = (fst (bce_forward_with_log_data ws mo co il ol),
              snd (bce_forward_with_log_data ws mo co il ol))"
proof -
  let ?r = "bce_forward_with_log_data ws mo co il ol"
  have same: "fst (bce_forward_with_log_data a mo co il ol) = fst (bce_forward_with_log_data b mo co il ol)"
    if "weights_inv a" "weights_inv b" for a b
    by (rule bce_forward_fst) (simp add: get_weight_value that)
  have inv: "weights_inv (snd ?r)"
    using bce_forward_snd[of ws mo co il ol] assms(1) get_weight_inv[OF assms(1), of "patches mo"]
    by auto
  have again: "snd (bce_forward_with_log_data (snd ?r) mo co il ol) = snd ?r"
  proof (cases "snd ?r = ws")
    case True
    then show ?thesis by simp
  next
    case False
    then have e: "snd ?r = snd (get_bce_maxima_outlier_weight ws (patches mo))"
      using bce_forward_snd[of ws mo co il ol] by simp
    have "snd (get_bce_maxima_outlier_weight (snd ?r) (patches mo)) = snd ?r"
      unfolding e by (simp add: get_weight_again)
    then show ?thesis using bce_forward_snd[of "snd ?r" mo co il ol] by auto
  qed
  have "fst (bce_forward_with_log_data (snd ?r) mo co il ol) = fst ?r"
    by (rule same[OF inv assms(1)])
  then have "bce_forward_with_log_data (snd ?r) mo co il ol = (fst ?r, snd ?r)"
    using again by (simp add: prod_eq_iff)
  then show ?thesis using same[OF assms(2,1)] inv by simp
qed

theorem bce_forward_deterministic_witness:
  "weights_inv init_weights
   \<and> weights_inv (snd (get_bce_maxima_outlier_weight init_weights 3))
   \<and> fst (bce_forward_with_log_data (snd (get_bce_maxima_outlier_weight init_weights 3))
            (of_rows [[2, 0], [1, 0], [0, 1], [0, 3]]) (of_rows [[1, 0], [0, 1]])
            [True, False] [False, True])
       = fst (bce_forward_with_log_data init_weights
            (of_rows [[2, 0], [1, 0], [0, 1], [0, 3]]) (of_rows [[1, 0], [0, 1]])
            [True, False] [False, True])
   \<and> bce_forward_with_log_data
         (snd (bce_forward_with_log_data init_weights
            (of_rows [[2, 0], [1, 0], [0, 1], [0, 3]]) (of_rows [[1, 0], [0, 1]])
            [True, False] [False, True]))
         (of_rows [[2, 0], [1, 0], [0, 1], [0, 3]]) (of_rows [[1, 0], [0, 1]])
         [True, False] [False, True]
       = (fst (bce_forward_with_log_data init_weights
            (of_rows [[2, 0], [1, 0], [0, 1], [0, 3]]) (of_rows [[1, 0], [0, 1]])
            [True, False] [False, True]),
          snd (bce_forward_with_log_data init_weights
            (of_rows [[2, 0], [1, 0], [0, 1], [0, 3]]) (of_rows [[1, 0], [0, 1]])
            [True, False] [False, True]))"
  using bce_forward_deterministic[OF weights_inv_init get_weight_inv[OF weights_inv_init, of 3],
          of "of_rows [[2, 0], [1, 0], [0, 1], [0, 3]]" "of_rows [[1, 0], [0, 1]]"
             "[True, False]" "[False, True]"]
        weights_inv_init get_weight_inv[OF weights_inv_init, of 3]
  by simp

section \<open>Evaluating the masks of small batches\<close>

lemma upt_2: "[0..<2] = [0, 1]" by (simp add: upt_rec)
lemma upt_4: "[0..<4] = [0, 1, 2, 3]" by (simp add: upt_rec)
lemma replicate_2: "replicate 2 x = [x, x]" by (simp add: numeral_2_eq_2)

lemmas mask_eval = replicate_2 mask_cells_def select_def maxima_inlier_index_def
  maxima_outlier_index_def unaligned_inlier_index_def expanded_inlier_def column_times_def
  repeat_interleave_rows_def repeat_interleave_def eye_def diag_def xor_column_def

lemmas result_eval = log_entry_def classic_result_def bce_result_def Let_def
  detach_if_not_none_def detach_def add_if_not_none_def zeros_grad_def zeros_leaf_def

lemma sigmoid_ln: "0 < x \<Longrightarrow> sigmoid (ln x) = x / (1 + x)"
  by (simp add: sigmoid_def exp_minus field_simps)





section \<open>C1: the unaligned-maxima selection\<close>





section \<open>C2: scenario 1\<close>

lemma sigmoid_minus_ln: "0 < x \<Longrightarrow> sigmoid (- ln x) = 1 / (1 + x)"
  by (simp add: sigmoid_def exp_ln)

lemma sigmoid_0: "sigmoid 0 = 1 / 2"
  by (simp add: sigmoid_def)

lemma cells_inlier_22: "mask_cells (maxima_inlier_index [True, True] 2) = [(0, 0), (2, 1)]"
  by (simp add: mask_eval upt_2 upt_4)

lemma cells_outlier_22:
  "mask_cells (maxima_outlier_index [True, True] [False, False] 2) = [(1, 0), (3, 1)]"
  by (simp add: mask_eval upt_2 upt_4)

lemma cells_diag_FF: "mask_cells (diag [False, False]) = []"
  by (simp add: mask_eval upt_2)

lemma scenario_1:
  assumes "well_shaped mo co [True, True] [False, False]" "dim0 mo = 4"
  shows "log_entry (classic_forward_with_log_data eps mo co [True, True] [False, False])
            ''outlier_correspondence_loss'' = Some None"
    and "log_entry (classic_forward_with_log_data eps mo co [True, True] [False, False])
            ''outlier_maximizer_loss''
          = Some (Some \<lparr>item = - ln (max (1 - prob mo 1 0) eps) - ln (max (1 - prob mo 3 1) eps),
                         requires_grad = False\<rparr>)"
    and "log_entry (classic_forward_with_log_data eps mo co [True, True] [False, False])
            ''inlier_maximizer_loss''
          = Some (Some \<lparr>item = - ln (max (prob mo 0 0) eps) - ln (max (prob mo 2 1) eps),
                         requires_grad = False\<rparr>)"
proof -
  have "dim1 mo = 2" using assms(1) by (simp add: well_shaped_def)
  then have n: "patches mo = 2" using assms(2) by (simp add: patches_def)
  note f = classic_forward_well_shaped[OF assms(1), of eps, unfolded n]
  show "log_entry (classic_forward_with_log_data eps mo co [True, True] [False, False])
            ''outlier_correspondence_loss'' = Some None"
    by (simp add: f result_eval classic_outlier_correspondence_loss_def select_def cells_diag_FF)
  show "log_entry (classic_forward_with_log_data eps mo co [True, True] [False, False])
            ''outlier_maximizer_loss''
          = Some (Some \<lparr>item = - ln (max (1 - prob mo 1 0) eps) - ln (max (1 - prob mo 3 1) eps),
                         requires_grad = False\<rparr>)"
    by (simp add: f result_eval classic_outlier_maximizer_loss_def
        outlier_maximizer_loss_of_def mask_sum_def cells_outlier_22 column_sum_def
        upt_2 upt_4 mask_eval)
  show "log_entry (classic_forward_with_log_data eps mo co [True, True] [False, False])
            ''inlier_maximizer_loss''
          = Some (Some \<lparr>item = - ln (max (prob mo 0 0) eps) - ln (max (prob mo 2 1) eps),
                         requires_grad = False\<rparr>)"
    by (simp add: f result_eval classic_inlier_loss_def select_def cells_inlier_22 sum_neg_log_def)
qed

text \<open>
  C2, as the code has it. For \<open>C = 2\<close>, \<open>N = 2\<close>, inlier labels (true, true) and outlier
  labels (false, false), whatever the scores: the correspondence-outlier term is absent;
  the outlier-maximizer term is present, because the second patch of each inlier channel
  (rows 1 and 3) is in the maxima-outlier selection, and equals
  \<open>-log(max(1 - p[1][0], eps)) - log(max(1 - p[3][1], eps))\<close>; the inlier term equals
  \<open>-log(max(p[0][0], eps)) - log(max(p[2][1], eps))\<close>, where \<open>p\<close> is the logistic function
  of the scores: it reads the first patch of each block (rows 0 and 2), not the largest.
\<close>

theorem scenario_1_first_patches:
  assumes "well_shaped mo co [True, True] [False, False]" "dim0 mo = 4"
  shows "log_entry (classic_forward_with_log_data eps mo co [True, True] [False, False])
            ''outlier_correspondence_loss'' = Some None
       \<and> log_entry (classic_forward_with_log_data eps mo co [True, True] [False, False])
            ''outlier_maximizer_loss''
          = Some (Some \<lparr>item = - ln (max (1 - prob mo 1 0) eps) - ln (max (1 - prob mo 3 1) eps),
                         requires_grad = False\<rparr>)
       \<and> log_entry (classic_forward_with_log_data eps mo co [True, True] [False, False])
            ''inlier_maximizer_loss''
          = Some (Some \<lparr>item = - ln (max (prob mo 0 0) eps) - ln (max (prob mo 2 1) eps),
                         requires_grad = False\<rparr>)"
  using scenario_1[OF assms] by simp

lemma ws42: "well_shaped (of_rows [[a, b], [c, d], [e, f], [g, h]]) (of_rows [[0, 0], [0, 0]])
     [True, True] [False, False]"
  by (simp add: well_shaped_def of_rows_def mod_Suc)

theorem scenario_1_first_patches_witness:
  "well_shaped (of_rows [[ln 9, 0], [0, 0], [0, ln 4], [0, 0]]) (of_rows [[0, 0], [0, 0]])
     [True, True] [False, False]
   \<and> dim0 (of_rows [[ln 9, 0], [0, 0], [0, ln 4], [0, 0]]) = 4
   \<and> log_entry (classic_forward_with_log_data (1 / 10000)
         (of_rows [[ln 9, 0], [0, 0], [0, ln 4], [0, 0]]) (of_rows [[0, 0], [0, 0]])
         [True, True] [False, False]) ''inlier_maximizer_loss''
       = Some (Some \<lparr>item = - ln (max (9 / 10) (1 / 10000)) - ln (max (8 / 10) (1 / 10000)),
                      requires_grad = False\<rparr>)
   \<and> log_entry (classic_forward_with_log_data (1 / 10000)
         (of_rows [[ln 9, 0], [0, 0], [0, ln 4], [0, 0]]) (of_rows [[0, 0], [0, 0]])
         [True, True] [False, False]) ''outlier_maximizer_loss''
       = Some (Some \<lparr>item = - ln (1 / 2) - ln (1 / 2), requires_grad = False\<rparr>)"
  using scenario_1_first_patches[OF ws42, of "ln 9" 0 0 0 0 "ln 4" 0 0 "1 / 10000"]
        ws42[of "ln 9" 0 0 0 0 "ln 4" 0 0]
  by (simp add: of_rows_def prob_def centre_cell_def sigmoid_ln sigmoid_0)

text \<open>
  The claim as stated fails: with squashed own-block scores (0.9, 0.1) for channel 0 and
  (0.2, 0.8) for channel 1, the outlier-maximizer term is not absent, and the inlier term
  is \<open>-log 0.9 - log 0.2\<close>, not \<open>-log 0.9 - log 0.8\<close>.
\<close>

theorem scenario_1_counterexample:
  "log_entry (classic_forward_with_log_data (1 / 10000)
       (of_rows [[ln 9, 0], [- ln 9, 0], [0, - ln 4], [0, ln 4]]) (of_rows [[0, 0], [0, 0]])
       [True, True] [False, False]) ''outlier_maximizer_loss''
     = Some (Some \<lparr>item = - ln (9 / 10) - ln (1 / 5), requires_grad = False\<rparr>)
   \<and> log_entry (classic_forward_with_log_data (1 / 10000)
       (of_rows [[ln 9, 0], [- ln 9, 0], [0, - ln 4], [0, ln 4]]) (of_rows [[0, 0], [0, 0]])
       [True, True] [False, False]) ''inlier_maximizer_loss''
     = Some (Some \<lparr>item = - ln (9 / 10) - ln (1 / 5), requires_grad = False\<rparr>)
   \<and> (- ln (9 / 10) - ln (1 / 5) :: real) \<noteq> - ln (max (9 / 10) (1 / 10000)) - ln (max (8 / 10) (1 / 10000))"
proof -
  have "ln (1 / 5 :: real) \<noteq> ln (4 / 5)" by (simp add: ln_div)
  then have "(- ln (9 / 10) - ln (1 / 5) :: real) \<noteq> - ln (max (9 / 10) (1 / 10000)) - ln (max (8 / 10) (1 / 10000))"
    by simp
  then show ?thesis
    using scenario_1(2,3)[OF ws42, of "ln 9" 0 "- ln 9" 0 0 "- ln 4" 0 "ln 4" "1 / 10000"]
    by (simp add: of_rows_def prob_def centre_cell_def sigmoid_ln sigmoid_minus_ln)
qed

section \<open>C6: the correspondence-outlier term\<close>

lemma select_diag: "select q (diag ol) = map (\<lambda>c. q c c) (filter (\<lambda>c. ol ! c) [0..<length ol])"
  by (simp add: select_def mask_cells_diag comp_def)

lemma correspondence_terms:
  assumes "well_shaped mo co il ol"
  shows "log_entry (classic_forward_with_log_data eps mo co il ol) ''outlier_correspondence_loss''
           = Some (if filter (\<lambda>c. ol ! c) [0..<length ol] = [] then None
                   else Some \<lparr>item = (\<Sum>c\<leftarrow>filter (\<lambda>c. ol ! c) [0..<length ol].
                                         - ln (max (prob co c c) eps)),
                              requires_grad = False\<rparr>)"
    and "log_entry (fst (bce_forward_with_log_data ws mo co il ol)) ''outlier_correspondence_loss''
           = Some (if filter (\<lambda>c. ol ! c) [0..<length ol] = [] then None
                   else Some \<lparr>item = (\<Sum>c\<leftarrow>filter (\<lambda>c. ol ! c) [0..<length ol].
                                         bce_term (centre_cell co c c) 1 1),
                              requires_grad = False\<rparr>)"
proof -
  show "log_entry (classic_forward_with_log_data eps mo co il ol) ''outlier_correspondence_loss''
           = Some (if filter (\<lambda>c. ol ! c) [0..<length ol] = [] then None
                   else Some \<lparr>item = (\<Sum>c\<leftarrow>filter (\<lambda>c. ol ! c) [0..<length ol].
                                         - ln (max (prob co c c) eps)),
                              requires_grad = False\<rparr>)"
    by (simp add: classic_forward_well_shaped[OF assms] result_eval
        classic_outlier_correspondence_loss_def select_diag sum_neg_log_def comp_def)
  show "log_entry (fst (bce_forward_with_log_data ws mo co il ol)) ''outlier_correspondence_loss''
           = Some (if filter (\<lambda>c. ol ! c) [0..<length ol] = [] then None
                   else Some \<lparr>item = (\<Sum>c\<leftarrow>filter (\<lambda>c. ol ! c) [0..<length ol].
                                         bce_term (centre_cell co c c) 1 1),
                              requires_grad = False\<rparr>)"
    by (simp add: bce_forward_well_shaped[OF assms] result_eval
        bce_outlier_correspondence_loss_def select_diag comp_def)
qed

lemma cells_inlier_FF1: "mask_cells (maxima_inlier_index [False, False] (Suc 0)) = []"
  by (simp add: mask_eval upt_2)

lemma cells_outlier_FF_TT1:
  "mask_cells (maxima_outlier_index [False, False] [True, True] (Suc 0)) = [(0, 0), (1, 1)]"
  by (simp add: mask_eval upt_2)

lemma cells_unaligned_FF: "mask_cells (unaligned_inlier_index [False, False]) = []"
  by (simp add: mask_eval upt_2)

lemma cells_diag_TT: "mask_cells (diag [True, True]) = [(0, 0), (1, 1)]"
  by (simp add: mask_eval upt_2)

lemma scenario_2:
  assumes "well_shaped mo co [False, False] [True, True]" "dim0 mo = 2"
  shows "log_entry (classic_forward_with_log_data eps mo co [False, False] [True, True])
            ''outlier_correspondence_loss''
          = Some (Some \<lparr>item = - ln (max (prob co 0 0) eps) - ln (max (prob co 1 1) eps),
                         requires_grad = False\<rparr>)"
    and "log_entry (classic_forward_with_log_data eps mo co [False, False] [True, True])
            ''outlier_maximizer_loss''
          = Some (Some \<lparr>item = - ln (max (1 - prob mo 0 0) eps) - ln (max (1 - prob mo 1 1) eps),
                         requires_grad = False\<rparr>)"
    and "log_entry (classic_forward_with_log_data eps mo co [False, False] [True, True])
            ''inlier_maximizer_loss'' = Some None"
    and "log_entry (classic_forward_with_log_data eps mo co [False, False] [True, True])
            ''unaligned_maximizer_loss'' = Some (Some \<lparr>item = 0, requires_grad = False\<rparr>)"
proof -
  have "dim1 mo = 2" using assms(1) by (simp add: well_shaped_def)
  then have n: "patches mo = 1" using assms(2) by (simp add: patches_def)
  note f = classic_forward_well_shaped[OF assms(1), of eps, unfolded n]
  show "log_entry (classic_forward_with_log_data eps mo co [False, False] [True, True])
            ''outlier_correspondence_loss''
          = Some (Some \<lparr>item = - ln (max (prob co 0 0) eps) - ln (max (prob co 1 1) eps),
                         requires_grad = False\<rparr>)"
    by (simp add: f result_eval classic_outlier_correspondence_loss_def select_def cells_diag_TT
        sum_neg_log_def)
  show "log_entry (classic_forward_with_log_data eps mo co [False, False] [True, True])
            ''outlier_maximizer_loss''
          = Some (Some \<lparr>item = - ln (max (1 - prob mo 0 0) eps) - ln (max (1 - prob mo 1 1) eps),
                         requires_grad = False\<rparr>)"
    by (simp add: f result_eval classic_outlier_maximizer_loss_def
        outlier_maximizer_loss_of_def mask_sum_def cells_outlier_FF_TT1 column_sum_def
        upt_2 mask_eval)
  show "log_entry (classic_forward_with_log_data eps mo co [False, False] [True, True])
            ''inlier_maximizer_loss'' = Some None"
    by (simp add: f result_eval classic_inlier_loss_def select_def cells_inlier_FF1)
  show "log_entry (classic_forward_with_log_data eps mo co [False, False] [True, True])
            ''unaligned_maximizer_loss'' = Some (Some \<lparr>item = 0, requires_grad = False\<rparr>)"
    by (simp add: f result_eval classic_unaligned_maximizer_loss_def select_def cells_unaligned_FF)
qed

text \<open>
  C6, as the code has it. In a well-shaped call the correspondence-outlier term of each
  variant runs over the diagonal cells \<open>(c, c)\<close> of the correspondence tensor with \<open>c\<close> an
  outlier channel, and is absent when there is none: Variant A sums
  \<open>-log(max(p, eps))\<close> of the squashed cells, Variant B sums the cross entropy with logits
  against the target 1. For \<open>C = 2\<close>, \<open>N = 1\<close>, inlier labels (false, false) and outlier
  labels (true, true), Variant A reports
  \<open>-log(max(q[0][0], eps)) - log(max(q[1][1], eps))\<close>; of the maxima terms only the inlier
  term is absent: the outlier-maximizer term is
  \<open>-log(max(1 - p[0][0], eps)) - log(max(1 - p[1][1], eps))\<close> and the unaligned term is
  the zero tensor.
\<close>

theorem correspondence_outlier_terms:
  assumes "well_shaped mo co il ol"
  shows "log_entry (classic_forward_with_log_data eps mo co il ol) ''outlier_correspondence_loss''
           = Some (if filter (\<lambda>c. ol ! c) [0..<length ol] = [] then None
                   else Some \<lparr>item = (\<Sum>c\<leftarrow>filter (\<lambda>c. ol ! c) [0..<length ol].
                                         - ln (max (prob co c c) eps)),
                              requires_grad = False\<rparr>)
       \<and> log_entry (fst (bce_forward_with_log_data ws mo co il ol)) ''outlier_correspondence_loss''
           = Some (if filter (\<lambda>c. ol ! c) [0..<length ol] = [] then None
                   else Some \<lparr>item = (\<Sum>c\<leftarrow>filter (\<lambda>c. ol ! c) [0..<length ol].
                                         bce_term (centre_cell co c c) 1 1),
                              requires_grad = False\<rparr>)
       \<and> (il = [False, False] \<and> ol = [True, True] \<and> dim0 mo = 2 \<longrightarrow>
            log_entry (classic_forward_with_log_data eps mo co il ol) ''outlier_correspondence_loss''
              = Some (Some \<lparr>item = - ln (max (prob co 0 0) eps) - ln (max (prob co 1 1) eps),
                             requires_grad = False\<rparr>)
          \<and> log_entry (classic_forward_with_log_data eps mo co il ol) ''outlier_maximizer_loss''
              = Some (Some \<lparr>item = - ln (max (1 - prob mo 0 0) eps) - ln (max (1 - prob mo 1 1) eps),
                             requires_grad = False\<rparr>)
          \<and> log_entry (classic_forward_with_log_data eps mo co il ol) ''inlier_maximizer_loss''
              = Some None
          \<and> log_entry (classic_forward_with_log_data eps mo co il ol) ''unaligned_maximizer_loss''
              = Some (Some \<lparr>item = 0, requires_grad = False\<rparr>))"
  using correspondence_terms(1)[OF assms, where eps = eps]
        correspondence_terms(2)[OF assms, where ws = ws]
        scenario_2[where mo = mo and co = co and eps = eps] assms
  by blast

lemma ws22: "well_shaped (of_rows [[a, b], [c, d]]) (of_rows [[e, f], [g, h]])
     [False, False] [True, True]"
  by (simp add: well_shaped_def of_rows_def)

theorem correspondence_outlier_terms_witness:
  "well_shaped (of_rows [[1, 0], [0, 2]]) (of_rows [[ln 19, 0], [0, ln 9]]) [False, False] [True, True]
   \<and> dim0 (of_rows [[1, 0], [0, 2]]) = 2
   \<and> log_entry (classic_forward_with_log_data (1 / 10000) (of_rows [[1, 0], [0, 2]])
         (of_rows [[ln 19, 0], [0, ln 9]]) [False, False] [True, True]) ''outlier_correspondence_loss''
       = Some (Some \<lparr>item = - ln (max (95 / 100) (1 / 10000)) - ln (max (9 / 10) (1 / 10000)),
                      requires_grad = False\<rparr>)
   \<and> log_entry (classic_forward_with_log_data (1 / 10000) (of_rows [[1, 0], [0, 2]])
         (of_rows [[ln 19, 0], [0, ln 9]]) [False, False] [True, True]) ''inlier_maximizer_loss''
       = Some None"
  using correspondence_outlier_terms[
          OF ws22[where a = 1 and b = 0 and c = 0 and d = 2 and e = "ln 19" and f = 0 and g = 0 and h = "ln 9"],
          where eps = "1 / 10000" and ws = init_weights]
        ws22[where a = 1 and b = 0 and c = 0 and d = 2 and e = "ln 19" and f = 0 and g = 0 and h = "ln 9"]
  by (simp add: of_rows_def prob_def centre_cell_def sigmoid_ln)

text \<open>
  The claim as stated fails: with squashed diagonal correspondence scores 0.95 and 0.9 and
  all scores 0, the outlier-maximizer term is \<open>-log 0.5 - log 0.5\<close> and the unaligned term
  is 0: neither is absent.
\<close>

theorem scenario_2_counterexample:
  "log_entry (classic_forward_with_log_data (1 / 10000) (of_rows [[0, 0], [0, 0]])
       (of_rows [[ln 19, 0], [0, ln 9]]) [False, False] [True, True]) ''outlier_maximizer_loss''
     = Some (Some \<lparr>item = - ln (1 / 2) - ln (1 / 2), requires_grad = False\<rparr>)
   \<and> log_entry (classic_forward_with_log_data (1 / 10000) (of_rows [[0, 0], [0, 0]])
       (of_rows [[ln 19, 0], [0, ln 9]]) [False, False] [True, True]) ''unaligned_maximizer_loss''
     = Some (Some \<lparr>item = 0, requires_grad = False\<rparr>)"
  using scenario_2(2,4)[
          OF ws22[where a = 0 and b = 0 and c = 0 and d = 0 and e = "ln 19" and f = 0 and g = 0 and h = "ln 9"],
          where eps = "1 / 10000"]
  by (simp add: of_rows_def prob_def centre_cell_def sigmoid_0)

section \<open>C7: no outlier labels\<close>

lemma mask_cells_outlier:
  assumes "0 < n"
  shows "mask_cells (maxima_outlier_index il ol n)
           = map (\<lambda>b. (b, b div n))
               (filter (\<lambda>b. map2 (\<and>) (repeat_interleave (map2 (\<or>) il ol) n)
                                 (map Not (expanded_inlier il n)) ! b) [0..<length il * n])"
proof -
  let ?eo = "map2 (\<and>) (repeat_interleave (map2 (\<or>) il ol) n) (map Not (expanded_inlier il n))"
  have "filter (\<lambda>(b, c). ?eo ! b \<and> b div n = c) (List.product [0..<length il * n] [0..<length il])
          = map (\<lambda>b. (b, b div n)) (filter (\<lambda>b. ?eo ! b) [0..<length il * n])"
    by (rule filter_product_graph) (use assms in \<open>auto simp: less_mult_imp_div_less\<close>)
  then show ?thesis
    by (simp add: mask_cells_def maxima_outlier_index_def repeat_interleave_rows_def
        column_times_def eye_def)
qed

lemma expanded_outlier_nth:
  assumes "length ol = length il" "b < length il * n"
  shows "map2 (\<and>) (repeat_interleave (map2 (\<or>) il ol) n) (map Not (expanded_inlier il n)) ! b
           = ((il ! (b div n) \<or> ol ! (b div n)) \<and> \<not> (b mod n = 0 \<and> il ! (b div n)))"
proof -
  have n: "0 < n" using assms(2) by (cases n) simp_all
  have k: "b div n < length il" using assms(2) n by (simp add: less_mult_imp_div_less)
  have "repeat_interleave (map2 (\<or>) il ol) n ! b = (il ! (b div n) \<or> ol ! (b div n))"
    using assms k by (simp add: repeat_interleave_nth)
  moreover have "expanded_inlier il n ! b = (b mod n = 0 \<and> il ! (b div n))"
    using assms(2) by (simp add: expanded_inlier_def)
  ultimately show ?thesis
    using assms by (simp add: repeat_interleave_length expanded_inlier_length)
qed

lemma non_first_patches_empty_iff:
  assumes "0 < n"
  shows "(\<forall>b < length il * n. \<not> (il ! (b div n) \<and> b mod n \<noteq> 0)) = (n = 1 \<or> True \<notin> set il)"
proof
  assume a: "\<forall>b < length il * n. \<not> (il ! (b div n) \<and> b mod n \<noteq> 0)"
  show "n = 1 \<or> True \<notin> set il"
  proof (rule ccontr)
    assume "\<not> (n = 1 \<or> True \<notin> set il)"
    then have n2: "2 \<le> n" and "True \<in> set il" using assms by auto
    then obtain k where k: "k < length il" "il ! k" by (metis in_set_conv_nth)
    let ?b = "k * n + 1"
    have "?b < Suc k * n" using n2 by simp
    also have "\<dots> \<le> length il * n" using k(1) by (simp add: Suc_leI mult_le_mono1 del: mult_Suc)
    finally have b: "?b < length il * n" .
    have "?b div n = k + 1 div n" by (rule div_mult_self3) (use n2 in simp)
    moreover have "1 div n = 0" using n2 by simp
    ultimately have d: "?b div n = k" by (simp only: add_0_right)
    have "?b mod n = 1 mod n" by (rule mod_mult_self3)
    moreover have "1 mod n = 1" using n2 by simp
    ultimately have m: "?b mod n = 1" by (simp only:)
    show False using a b d m k(2) by (metis zero_neq_one)
  qed
next
  assume a: "n = 1 \<or> True \<notin> set il"
  show "\<forall>b < length il * n. \<not> (il ! (b div n) \<and> b mod n \<noteq> 0)"
  proof (intro allI impI)
    fix b assume b: "b < length il * n"
    have k: "b div n < length il" using b assms by (simp add: less_mult_imp_div_less)
    show "\<not> (il ! (b div n) \<and> b mod n \<noteq> 0)"
    proof (cases "n = 1")
      case True
      then show ?thesis by simp
    next
      case False
      then have "True \<notin> set il" using a by simp
      then have "\<not> il ! (b div n)" using k by (metis nth_mem)
      then show ?thesis by simp
    qed
  qed
qed

lemma inlier_rows_empty_iff:
  assumes "0 < n"
  shows "(filter (\<lambda>b. il ! (b div n)) [0..<length il * n] = []) = (True \<notin> set il)"
proof
  assume a: "filter (\<lambda>b. il ! (b div n)) [0..<length il * n] = []"
  show "True \<notin> set il"
  proof
    assume "True \<in> set il"
    then obtain k where k: "k < length il" "il ! k" by (metis in_set_conv_nth)
    have "k * n < Suc k * n" using assms by simp
    also have "\<dots> \<le> length il * n" using k(1) by (simp add: Suc_leI mult_le_mono1 del: mult_Suc)
    finally have b: "k * n < length il * n" .
    have d: "k * n div n = k" using assms by simp
    have a': "\<forall>x \<in> set [0..<length il * n]. \<not> il ! (x div n)"
      using a by (simp add: filter_empty_conv)
    have "k * n \<in> set [0..<length il * n]" using b by simp
    then have "\<not> il ! (k * n div n)" by (rule a'[rule_format])
    then have "\<not> il ! k" unfolding d .
    then show False using k(2) by blast
  qed
next
  assume a: "True \<notin> set il"
  have "\<not> il ! (b div n)" if "b < length il * n" for b
  proof -
    have "b div n < length il" using that assms by (simp add: less_mult_imp_div_less)
    then show ?thesis using a by (metis nth_mem)
  qed
  then show "filter (\<lambda>b. il ! (b div n)) [0..<length il * n] = []"
    by (auto simp: filter_empty_conv)
qed

lemma no_outlier_nth:
  assumes "length ol = length il" "True \<notin> set ol" "k < length il"
  shows "\<not> ol ! k"
  using assms by (metis nth_mem)

lemma outlier_selection_no_outlier:
  assumes "0 < n" "length ol = length il" "True \<notin> set ol"
  shows "mask_cells (maxima_outlier_index il ol n)
           = map (\<lambda>b. (b, b div n))
               (filter (\<lambda>b. il ! (b div n) \<and> b mod n \<noteq> 0) [0..<length il * n])"
proof -
  have "filter (\<lambda>b. map2 (\<and>) (repeat_interleave (map2 (\<or>) il ol) n)
                       (map Not (expanded_inlier il n)) ! b) [0..<length il * n]
          = filter (\<lambda>b. il ! (b div n) \<and> b mod n \<noteq> 0) [0..<length il * n]"
  proof (rule filter_cong[OF refl])
    fix b assume "b \<in> set [0..<length il * n]"
    then have b: "b < length il * n" by simp
    have "b div n < length il" using b assms(1) by (simp add: less_mult_imp_div_less)
    then have "\<not> ol ! (b div n)" using no_outlier_nth[OF assms(2,3)] by simp
    then show "map2 (\<and>) (repeat_interleave (map2 (\<or>) il ol) n)
                  (map Not (expanded_inlier il n)) ! b
                = (il ! (b div n) \<and> b mod n \<noteq> 0)"
      using expanded_outlier_nth[OF assms(2) b] by auto
  qed
  then show ?thesis by (simp add: mask_cells_outlier[OF assms(1)])
qed

lemma outlier_selection_empty_iff:
  assumes "0 < n" "length ol = length il" "True \<notin> set ol"
  shows "(mask_cells (maxima_outlier_index il ol n) = []) = (n = 1 \<or> True \<notin> set il)"
  using non_first_patches_empty_iff[OF assms(1), of il]
  by (auto simp: outlier_selection_no_outlier[OF assms] filter_empty_conv)

lemma outlier_bit:
  assumes "0 < n" "length ol = length il" "True \<notin> set ol" "b < length il * n"
  shows "bit (maxima_outlier_index il ol n) b c = (il ! c \<and> b div n = c \<and> b mod n \<noteq> 0)"
proof -
  have k: "b div n < length il" using assms(1,4) by (simp add: less_mult_imp_div_less)
  have o: "\<not> ol ! (b div n)" using no_outlier_nth[OF assms(2,3) k] .
  have "bit (maxima_outlier_index il ol n) b c
          = (map2 (\<and>) (repeat_interleave (map2 (\<or>) il ol) n) (map Not (expanded_inlier il n)) ! b
             \<and> b div n = c)"
    by (simp add: maxima_outlier_index_def column_times_def repeat_interleave_rows_def eye_def)
  also have "\<dots> = ((il ! (b div n) \<and> b mod n \<noteq> 0) \<and> b div n = c)"
    using expanded_outlier_nth[OF assms(2,4)] o by auto
  also have "\<dots> = (il ! c \<and> b div n = c \<and> b mod n \<noteq> 0)" by auto
  finally show ?thesis .
qed

lemma outlier_index_shape:
  "rows (maxima_outlier_index il ol n) = length il * n" "cols (maxima_outlier_index il ol n) = length il"
  by (simp_all add: maxima_outlier_index_def column_times_def repeat_interleave_rows_def eye_def)

lemma outlier_maximizer_no_outlier:
  assumes "0 < n" "length ol = length il" "True \<notin> set ol"
  shows "outlier_maximizer_loss_of eps p g (maxima_outlier_index il ol n)
           = (if n = 1 \<or> True \<notin> set il then None
              else Some \<lparr>item =
                     (\<Sum>c\<leftarrow>[0..<length il].
                        (\<Sum>b\<leftarrow>[0..<length il * n].
                           - ln (max (1 - p b c) eps) * of_bool (il ! c \<and> b div n = c \<and> b mod n \<noteq> 0))
                        / max (real (length (filter (\<lambda>b. il ! c \<and> b div n = c \<and> b mod n \<noteq> 0)
                                               [0..<length il * n]))) 1),
                   requires_grad = g\<rparr>)"
proof -
  let ?m = "maxima_outlier_index il ol n"
  let ?sel = "\<lambda>b c. il ! c \<and> b div n = c \<and> b mod n \<noteq> 0"
  have e: "(mask_sum ?m = 0) = (n = 1 \<or> True \<notin> set il)"
    using outlier_selection_empty_iff[OF assms] by (simp add: mask_sum_def)
  have inner: "(\<Sum>b\<leftarrow>[0..<length il * n]. - 1 * ln (max (- 1 * p b c + 1) eps) * of_bool (bit ?m b c))
             = (\<Sum>b\<leftarrow>[0..<length il * n]. - ln (max (1 - p b c) eps) * of_bool (?sel b c))" for c
  proof -
    have "map (\<lambda>b. - 1 * ln (max (- 1 * p b c + 1) eps) * of_bool (bit ?m b c)) [0..<length il * n]
        = map (\<lambda>b. - ln (max (1 - p b c) eps) * of_bool (?sel b c)) [0..<length il * n]"
      by (rule map_cong[OF refl]) (simp add: outlier_bit[OF assms])
    then show ?thesis by (rule arg_cong[where f = sum_list])
  qed
  have count: "column_sum ?m c
             = length (filter (\<lambda>b. ?sel b c) [0..<length il * n])" for c
  proof -
    have "filter (\<lambda>b. bit ?m b c) [0..<length il * n] = filter (\<lambda>b. ?sel b c) [0..<length il * n]"
      by (rule filter_cong[OF refl]) (simp add: outlier_bit[OF assms])
    then show ?thesis by (simp add: column_sum_def outlier_index_shape)
  qed
  show ?thesis
    unfolding outlier_maximizer_loss_of_def Let_def outlier_index_shape
    by (simp only: e inner count)
qed

lemma has_data_rows_no_outlier:
  assumes "0 < n" "length ol = length il" "True \<notin> set ol"
  shows "has_data_rows il ol n = filter (\<lambda>b. il ! (b div n)) [0..<length il * n]"
  unfolding has_data_rows_def
proof (rule filter_cong[OF refl])
  fix b assume "b \<in> set [0..<length il * n]"
  then have "b div n < length il" using assms(1) by (simp add: less_mult_imp_div_less)
  then show "map2 (\<or>) il ol ! (b div n) = il ! (b div n)"
    using no_outlier_nth[OF assms(2,3)] assms(2) by simp
qed

lemma outlier_targets_empty_iff:
  assumes "0 < n" "length ol = length il" "True \<notin> set ol"
  shows "(filter (\<lambda>b. b mod n \<noteq> 0) (has_data_rows il ol n) = []) = (n = 1 \<or> True \<notin> set il)"
  using non_first_patches_empty_iff[OF assms(1), of il]
  by (auto simp: has_data_rows_no_outlier[OF assms] filter_empty_conv)

lemma bce_maximizer_no_outlier:
  assumes "0 < n" "length ol = length il" "True \<notin> set ol"
  shows "fst (bce_maximizer_loss ws x g il ol n)
           = (if True \<notin> set il then None
              else Some \<lparr>item = (\<Sum>b\<leftarrow>filter (\<lambda>b. il ! (b div n)) [0..<length il * n].
                                    bce_term (x b (b div n)) (of_bool (b mod n = 0))
                                      (if b mod n = 0 then 1
                                       else the (fst (get_bce_maxima_outlier_weight ws n)))),
                         requires_grad = g\<rparr>)"
proof -
  let ?rows = "filter (\<lambda>b. il ! (b div n)) [0..<length il * n]"
  let ?w = "the (fst (get_bce_maxima_outlier_weight ws n))"
  have r: "has_data_rows il ol n = ?rows" by (rule has_data_rows_no_outlier[OF assms])
  have e: "map (\<lambda>b. bce_term (x b (b div n)) (of_bool (expanded_inlier il n ! b))
                      (if expanded_inlier il n ! b then 1 else ?w)) ?rows
         = map (\<lambda>b. bce_term (x b (b div n)) (of_bool (b mod n = 0))
                      (if b mod n = 0 then 1 else ?w)) ?rows"
  proof (rule map_cong[OF refl])
    fix b assume "b \<in> set ?rows"
    then have b: "b < length il * n" "il ! (b div n)" by simp_all
    have "expanded_inlier il n ! b = (b mod n = 0)" using b by (simp add: expanded_inlier_def)
    then show "bce_term (x b (b div n)) (of_bool (expanded_inlier il n ! b))
                  (if expanded_inlier il n ! b then 1 else ?w)
             = bce_term (x b (b div n)) (of_bool (b mod n = 0)) (if b mod n = 0 then 1 else ?w)"
      by simp
  qed
  show ?thesis
    using inlier_rows_empty_iff[OF assms(1), of il]
    by (simp add: bce_maximizer_loss_def r e split_beta)
qed

lemma no_outlier_select: "True \<notin> set ol \<Longrightarrow> select q (diag ol) = []"
proof -
  assume a: "True \<notin> set ol"
  have "filter (\<lambda>c. ol ! c) [0..<length ol] = []"
    using a by (auto simp: filter_empty_conv) (metis nth_mem)
  then show ?thesis by (simp add: select_diag)
qed

lemma no_outlier_labels:
  assumes "well_shaped mo co il ol" "True \<notin> set ol"
  shows "log_entry (classic_forward_with_log_data eps mo co il ol) ''outlier_correspondence_loss''
           = Some None"
    and "log_entry (fst (bce_forward_with_log_data ws mo co il ol)) ''outlier_correspondence_loss''
           = Some None"
    and "(log_entry (classic_forward_with_log_data eps mo co il ol) ''outlier_maximizer_loss''
           = Some None) = (patches mo = 1 \<or> True \<notin> set il)"
    and "well_shaped mo co' il ol \<Longrightarrow>
           classic_forward_with_log_data eps mo co' il ol = classic_forward_with_log_data eps mo co il ol"
    and "well_shaped mo co' il ol \<Longrightarrow>
           fst (bce_forward_with_log_data ws mo co' il ol) = fst (bce_forward_with_log_data ws mo co il ol)"
    and "mask_cells (maxima_outlier_index il ol (patches mo))
           = map (\<lambda>b. (b, b div patches mo))
               (filter (\<lambda>b. il ! (b div patches mo) \<and> b mod patches mo \<noteq> 0)
                  [0..<length il * patches mo])"
    and "log_entry (classic_forward_with_log_data eps mo co il ol) ''outlier_maximizer_loss''
           = Some (if patches mo = 1 \<or> True \<notin> set il then None
                   else Some \<lparr>item =
                       (\<Sum>c\<leftarrow>[0..<length il].
                          (\<Sum>b\<leftarrow>[0..<length il * patches mo].
                             - ln (max (1 - prob mo b c) eps)
                               * of_bool (il ! c \<and> b div patches mo = c \<and> b mod patches mo \<noteq> 0))
                          / max (real (length (filter
                                   (\<lambda>b. il ! c \<and> b div patches mo = c \<and> b mod patches mo \<noteq> 0)
                                   [0..<length il * patches mo]))) 1),
                     requires_grad = False\<rparr>)"
    and "has_data_rows il ol (patches mo)
           = filter (\<lambda>b. il ! (b div patches mo)) [0..<length il * patches mo]"
    and "log_entry (fst (bce_forward_with_log_data ws mo co il ol)) ''bce_maximizer_loss''
           = Some (if True \<notin> set il then None
                   else Some \<lparr>item =
                       (\<Sum>b\<leftarrow>filter (\<lambda>b. il ! (b div patches mo)) [0..<length il * patches mo].
                          bce_term (centre_cell mo b (b div patches mo)) (of_bool (b mod patches mo = 0))
                            (if b mod patches mo = 0 then 1
                             else the (fst (get_bce_maxima_outlier_weight ws (patches mo))))),
                     requires_grad = False\<rparr>)"
    and "(filter (\<lambda>b. b mod patches mo \<noteq> 0) (has_data_rows il ol (patches mo)) = [])
           = (patches mo = 1 \<or> True \<notin> set il)"
proof -
  note d = well_shapedD[OF assms(1)]
  note fa = classic_forward_well_shaped[OF assms(1)]
  note fb = bce_forward_well_shaped[OF assms(1)]
  show "log_entry (classic_forward_with_log_data eps mo co il ol) ''outlier_correspondence_loss''
           = Some None"
    by (simp add: fa result_eval classic_outlier_correspondence_loss_def no_outlier_select[OF assms(2)])
  show "log_entry (fst (bce_forward_with_log_data ws mo co il ol)) ''outlier_correspondence_loss''
           = Some None"
    by (simp add: fb result_eval bce_outlier_correspondence_loss_def no_outlier_select[OF assms(2)])
  show "(log_entry (classic_forward_with_log_data eps mo co il ol) ''outlier_maximizer_loss''
           = Some None) = (patches mo = 1 \<or> True \<notin> set il)"
    using outlier_selection_empty_iff[OF d(2) d(13) assms(2)]
    by (simp add: fa result_eval classic_outlier_maximizer_loss_def outlier_maximizer_loss_of_def
        mask_sum_def)
  show "classic_forward_with_log_data eps mo co' il ol = classic_forward_with_log_data eps mo co il ol"
    if "well_shaped mo co' il ol"
    by (simp add: fa classic_forward_well_shaped[OF that] classic_outlier_correspondence_loss_def
        no_outlier_select[OF assms(2)])
  show "fst (bce_forward_with_log_data ws mo co' il ol) = fst (bce_forward_with_log_data ws mo co il ol)"
    if "well_shaped mo co' il ol"
    by (simp add: fb bce_forward_well_shaped[OF that] bce_outlier_correspondence_loss_def
        no_outlier_select[OF assms(2)])
  show "mask_cells (maxima_outlier_index il ol (patches mo))
           = map (\<lambda>b. (b, b div patches mo))
               (filter (\<lambda>b. il ! (b div patches mo) \<and> b mod patches mo \<noteq> 0)
                  [0..<length il * patches mo])"
    by (rule outlier_selection_no_outlier[OF d(2) d(13) assms(2)])
  show "log_entry (classic_forward_with_log_data eps mo co il ol) ''outlier_maximizer_loss''
           = Some (if patches mo = 1 \<or> True \<notin> set il then None
                   else Some \<lparr>item =
                       (\<Sum>c\<leftarrow>[0..<length il].
                          (\<Sum>b\<leftarrow>[0..<length il * patches mo].
                             - ln (max (1 - prob mo b c) eps)
                               * of_bool (il ! c \<and> b div patches mo = c \<and> b mod patches mo \<noteq> 0))
                          / max (real (length (filter
                                   (\<lambda>b. il ! c \<and> b div patches mo = c \<and> b mod patches mo \<noteq> 0)
                                   [0..<length il * patches mo]))) 1),
                     requires_grad = False\<rparr>)"
    by (simp add: fa log_entry_def classic_result_def Let_def classic_outlier_maximizer_loss_def
        outlier_maximizer_no_outlier[OF d(2) d(13) assms(2)] detach_if_not_none_def detach_def)
  show "has_data_rows il ol (patches mo)
           = filter (\<lambda>b. il ! (b div patches mo)) [0..<length il * patches mo]"
    by (rule has_data_rows_no_outlier[OF d(2) d(13) assms(2)])
  show "log_entry (fst (bce_forward_with_log_data ws mo co il ol)) ''bce_maximizer_loss''
           = Some (if True \<notin> set il then None
                   else Some \<lparr>item =
                       (\<Sum>b\<leftarrow>filter (\<lambda>b. il ! (b div patches mo)) [0..<length il * patches mo].
                          bce_term (centre_cell mo b (b div patches mo)) (of_bool (b mod patches mo = 0))
                            (if b mod patches mo = 0 then 1
                             else the (fst (get_bce_maxima_outlier_weight ws (patches mo))))),
                     requires_grad = False\<rparr>)"
    by (simp add: fb log_entry_def bce_result_def Let_def
        bce_maximizer_no_outlier[OF d(2) d(13) assms(2)] detach_if_not_none_def detach_def)
  show "(filter (\<lambda>b. b mod patches mo \<noteq> 0) (has_data_rows il ol (patches mo)) = [])
           = (patches mo = 1 \<or> True \<notin> set il)"
    by (rule outlier_targets_empty_iff[OF d(2) d(13) assms(2)])
qed


lemma weight_of_patches:
  assumes "weights_inv ws \<and> 2 \<le> n"
  shows "fst (get_bce_maxima_outlier_weight ws n)
           = Some (real n * ln (real n - 1) - ln ((real n - 1) / real n) - real n * ln (real n) + 1)"
  using assms by (simp add: get_weight_value outlier_weight_def weight_formula_closed)

text \<open>
  C7, as the code has it. In a well-shaped call with no outlier label set, both variants
  report the correspondence-outlier term as absent, and the outcome (total and log
  dictionary) does not depend on the correspondence scores. The outlier-maximizer
  contribution is not absent in general. In Variant A the maxima-outlier selection is then
  exactly the cells \<open>(b, b div N)\<close> of the patches \<open>b\<close> of an inlier channel after its first
  (\<open>b mod N \<noteq> 0\<close>); the outlier-maximizer term is the sum, over the channels, of the mean
  of \<open>-log(max(1 - p, eps))\<close> over the selected patches of the channel, and it is absent
  exactly when there is one patch per channel or no inlier label is set. In Variant B the maxima term runs over all patches of the inlier channels, with
  target 1 and weight 1 at the first patch of a channel and target 0, an outlier target, with
  the weight the dictionary returns for \<open>N\<close> (the closed form, for \<open>N \<ge> 2\<close> and a
  dictionary the class can hold) at every other patch; it is absent exactly when no inlier
  label is set, and it has an outlier target exactly when there is more than one patch per
  channel and an inlier label is set.
\<close>

theorem no_outlier_labels_terms:
  assumes "well_shaped mo co il ol" "True \<notin> set ol"
  shows "log_entry (classic_forward_with_log_data eps mo co il ol) ''outlier_correspondence_loss''
           = Some None
       \<and> log_entry (fst (bce_forward_with_log_data ws mo co il ol)) ''outlier_correspondence_loss''
           = Some None
       \<and> (well_shaped mo co' il ol \<longrightarrow>
            classic_forward_with_log_data eps mo co' il ol
              = classic_forward_with_log_data eps mo co il ol
          \<and> fst (bce_forward_with_log_data ws mo co' il ol)
              = fst (bce_forward_with_log_data ws mo co il ol))
       \<and> mask_cells (maxima_outlier_index il ol (patches mo))
           = map (\<lambda>b. (b, b div patches mo))
               (filter (\<lambda>b. il ! (b div patches mo) \<and> b mod patches mo \<noteq> 0)
                  [0..<length il * patches mo])
       \<and> log_entry (classic_forward_with_log_data eps mo co il ol) ''outlier_maximizer_loss''
           = Some (if patches mo = 1 \<or> True \<notin> set il then None
                   else Some \<lparr>item =
                       (\<Sum>c\<leftarrow>[0..<length il].
                          (\<Sum>b\<leftarrow>[0..<length il * patches mo].
                             - ln (max (1 - prob mo b c) eps)
                               * of_bool (il ! c \<and> b div patches mo = c \<and> b mod patches mo \<noteq> 0))
                          / max (real (length (filter
                                   (\<lambda>b. il ! c \<and> b div patches mo = c \<and> b mod patches mo \<noteq> 0)
                                   [0..<length il * patches mo]))) 1),
                     requires_grad = False\<rparr>)
       \<and> (log_entry (classic_forward_with_log_data eps mo co il ol) ''outlier_maximizer_loss''
             = Some None) = (patches mo = 1 \<or> True \<notin> set il)
       \<and> has_data_rows il ol (patches mo)
           = filter (\<lambda>b. il ! (b div patches mo)) [0..<length il * patches mo]
       \<and> log_entry (fst (bce_forward_with_log_data ws mo co il ol)) ''bce_maximizer_loss''
           = Some (if True \<notin> set il then None
                   else Some \<lparr>item =
                       (\<Sum>b\<leftarrow>filter (\<lambda>b. il ! (b div patches mo)) [0..<length il * patches mo].
                          bce_term (centre_cell mo b (b div patches mo)) (of_bool (b mod patches mo = 0))
                            (if b mod patches mo = 0 then 1
                             else the (fst (get_bce_maxima_outlier_weight ws (patches mo))))),
                     requires_grad = False\<rparr>)
       \<and> (filter (\<lambda>b. b mod patches mo \<noteq> 0) (has_data_rows il ol (patches mo)) = [])
           = (patches mo = 1 \<or> True \<notin> set il)
       \<and> (weights_inv ws \<and> 2 \<le> patches mo \<longrightarrow>
            fst (get_bce_maxima_outlier_weight ws (patches mo))
              = Some (real (patches mo) * ln (real (patches mo) - 1)
                      - ln ((real (patches mo) - 1) / real (patches mo))
                      - real (patches mo) * ln (real (patches mo)) + 1))"
  using no_outlier_labels(1)[OF assms, where eps = eps]
        weight_of_patches[of ws "patches mo"]
        no_outlier_labels(2)[OF assms, where ws = ws]
        no_outlier_labels(3)[OF assms, where eps = eps]
        no_outlier_labels(4)[OF assms, where eps = eps and co' = co']
        no_outlier_labels(5)[OF assms, where ws = ws and co' = co']
        no_outlier_labels(6)[OF assms]
        no_outlier_labels(7)[OF assms, where eps = eps]
        no_outlier_labels(8)[OF assms]
        no_outlier_labels(9)[OF assms, where ws = ws]
        no_outlier_labels(10)[OF assms]
  by (intro conjI impI) blast+

lemma ws42_TF: "well_shaped (of_rows [[a, b], [c, d], [e, f], [g, h]]) (of_rows [[p, q], [r, s]])
     [True, False] [False, False]"
  by (simp add: well_shaped_def of_rows_def mod_Suc)

lemma patches_42: "patches (of_rows [[a, b], [c, d], [e, f], [g, h]]) = 2"
proof -
  have "dim0 (of_rows [[a, b], [c, d], [e, f], [g, h]]) = 4" by (simp add: of_rows_def)
  moreover have "dim1 (of_rows [[a, b], [c, d], [e, f], [g, h]]) = 2" by (simp add: of_rows_def)
  ultimately show ?thesis by (simp add: patches_def)
qed

lemma cells_outlier_TF_FF2:
  "mask_cells (maxima_outlier_index [True, False] [False, False] 2) = [(1, 0)]"
  by (simp add: mask_eval upt_2 upt_4)

lemma rows_TF_FF2: "has_data_rows [True, False] [False, False] 2 = [0, 1]"
  by (simp add: has_data_rows_def upt_4)

theorem no_outlier_labels_terms_witness:
  "well_shaped (of_rows [[0, 0], [0, 0], [0, 0], [0, 0]]) (of_rows [[1, 0], [0, 1]])
     [True, False] [False, False]
   \<and> True \<notin> set [False, False]
   \<and> well_shaped (of_rows [[0, 0], [0, 0], [0, 0], [0, 0]]) (of_rows [[5, 0], [0, 7]])
     [True, False] [False, False]
   \<and> log_entry (classic_forward_with_log_data (1 / 10000) (of_rows [[0, 0], [0, 0], [0, 0], [0, 0]])
         (of_rows [[1, 0], [0, 1]]) [True, False] [False, False]) ''outlier_correspondence_loss''
       = Some None
   \<and> log_entry (fst (bce_forward_with_log_data init_weights (of_rows [[0, 0], [0, 0], [0, 0], [0, 0]])
         (of_rows [[1, 0], [0, 1]]) [True, False] [False, False])) ''outlier_correspondence_loss''
       = Some None
   \<and> log_entry (classic_forward_with_log_data (1 / 10000) (of_rows [[0, 0], [0, 0], [0, 0], [0, 0]])
         (of_rows [[1, 0], [0, 1]]) [True, False] [False, False]) ''outlier_maximizer_loss''
       \<noteq> Some None
   \<and> classic_forward_with_log_data (1 / 10000) (of_rows [[0, 0], [0, 0], [0, 0], [0, 0]])
         (of_rows [[5, 0], [0, 7]]) [True, False] [False, False]
       = classic_forward_with_log_data (1 / 10000) (of_rows [[0, 0], [0, 0], [0, 0], [0, 0]])
         (of_rows [[1, 0], [0, 1]]) [True, False] [False, False]
   \<and> fst (bce_forward_with_log_data init_weights (of_rows [[0, 0], [0, 0], [0, 0], [0, 0]])
         (of_rows [[5, 0], [0, 7]]) [True, False] [False, False])
       = fst (bce_forward_with_log_data init_weights (of_rows [[0, 0], [0, 0], [0, 0], [0, 0]])
         (of_rows [[1, 0], [0, 1]]) [True, False] [False, False])
   \<and> weights_inv init_weights
   \<and> 2 \<le> patches (of_rows [[0, 0], [0, 0], [0, 0], [0, 0]])
   \<and> fst (get_bce_maxima_outlier_weight init_weights 2)
       = Some (real 2 * ln (real 2 - 1) - ln ((real 2 - 1) / real 2) - real 2 * ln (real 2) + 1)"
proof -
  have s: "True \<notin> set [False, False]" by simp
  have p2: "2 \<le> patches (of_rows [[0, 0], [0, 0], [0, 0], [0, 0]])" by (simp add: patches_42)
  note w = ws42_TF[where a = 0 and b = 0 and c = 0 and d = 0 and e = 0 and f = 0 and g = 0 and h = 0
                     and p = 1 and q = 0 and r = 0 and s = 1]
  note w' = ws42_TF[where a = 0 and b = 0 and c = 0 and d = 0 and e = 0 and f = 0 and g = 0 and h = 0
                      and p = 5 and q = 0 and r = 0 and s = 7]
  have q: "\<not> ((2 :: nat) = 1 \<or> True \<notin> set [True, False])" by simp
  show ?thesis
    using no_outlier_labels_terms[OF w s,
            where eps = "1 / 10000" and ws = init_weights and co' = "of_rows [[5, 0], [0, 7]]",
            unfolded patches_42]
          w w' s q weights_inv_init p2[unfolded patches_42] p2
    by blast
qed

lemma weight_2: "get_bce_maxima_outlier_weight init_weights 2
    = (Some (2 * ln (2 - 1) - ln ((2 - 1) / 2) - 2 * ln 2 + 1),
       store init_weights (str 2) (2 * ln (2 - 1) - ln ((2 - 1) / 2) - 2 * ln 2 + 1))"
  using get_weight_new[of 2 init_weights] init_2 by simp

lemma second_patch_is_outlier:
  assumes "well_shaped mo co [True, False] [False, False]" "dim0 mo = 4"
  shows "log_entry (classic_forward_with_log_data eps mo co [True, False] [False, False])
            ''outlier_maximizer_loss''
          = Some (Some \<lparr>item = - ln (max (1 - prob mo 1 0) eps), requires_grad = False\<rparr>)"
    and "log_entry (fst (bce_forward_with_log_data init_weights mo co [True, False] [False, False]))
            ''bce_maximizer_loss''
          = Some (Some \<lparr>item = bce_term (centre_cell mo 0 0) 1 1
                              + bce_term (centre_cell mo 1 0) 0
                                  (2 * ln (2 - 1) - ln ((2 - 1) / 2) - 2 * ln 2 + 1),
                         requires_grad = False\<rparr>)"
proof -
  have "dim1 mo = 2" using assms(1) by (simp add: well_shaped_def)
  then have n: "patches mo = 2" using assms(2) by (simp add: patches_def)
  note f = classic_forward_well_shaped[OF assms(1), of eps, unfolded n]
  show "log_entry (classic_forward_with_log_data eps mo co [True, False] [False, False])
            ''outlier_maximizer_loss''
          = Some (Some \<lparr>item = - ln (max (1 - prob mo 1 0) eps), requires_grad = False\<rparr>)"
    by (simp add: f result_eval classic_outlier_maximizer_loss_def
        outlier_maximizer_loss_of_def mask_sum_def cells_outlier_TF_FF2 column_sum_def
        upt_2 upt_4 mask_eval)
  note g = bce_forward_well_shaped[OF assms(1), of init_weights, unfolded n]
  show "log_entry (fst (bce_forward_with_log_data init_weights mo co [True, False] [False, False]))
            ''bce_maximizer_loss''
          = Some (Some \<lparr>item = bce_term (centre_cell mo 0 0) 1 1
                              + bce_term (centre_cell mo 1 0) 0
                                  (2 * ln (2 - 1) - ln ((2 - 1) / 2) - 2 * ln 2 + 1),
                         requires_grad = False\<rparr>)"
    by (simp add: g result_eval bce_maximizer_loss_def rows_TF_FF2 weight_2 expanded_inlier_def upt_4)
qed

lemma outlier_target_term: "bce_term 0 0 (2 * ln (2 - 1) - ln ((2 - 1) / 2) - 2 * ln 2 + 1) \<noteq> 0"
proof -
  have a: "0 < ln (2 :: real)" by simp
  have b: "ln (2 :: real) < 1" by (rule ln_2_less_1)
  have "bce_term 0 0 (2 * ln (2 - 1) - ln ((2 - 1) / 2) - 2 * ln 2 + 1) = (1 - ln 2) * ln 2"
    by (simp add: bce_term_def sigmoid_0 ln_div)
  then show ?thesis using a b by simp
qed

text \<open>
  The claim as stated fails: with two patches per channel, all scores 0, inlier labels
  (true, false) and no outlier label, the outlier-maximizer term of Variant A is present
  (\<open>-log 0.5\<close>, from the second patch of channel 0), and the maxima term of Variant B holds,
  next to the inlier target of row 0, the outlier target of row 1 with the weight for
  \<open>N = 2\<close>, which is not zero.
\<close>

theorem no_outlier_labels_counterexample:
  "True \<notin> set [False, False]
   \<and> log_entry (classic_forward_with_log_data (1 / 10000)
         (of_rows [[0, 0], [0, 0], [0, 0], [0, 0]]) (of_rows [[0, 0], [0, 0]])
         [True, False] [False, False]) ''outlier_maximizer_loss''
       = Some (Some \<lparr>item = - ln (1 / 2), requires_grad = False\<rparr>)
   \<and> log_entry (fst (bce_forward_with_log_data init_weights
         (of_rows [[0, 0], [0, 0], [0, 0], [0, 0]]) (of_rows [[0, 0], [0, 0]])
         [True, False] [False, False])) ''bce_maximizer_loss''
       = Some (Some \<lparr>item = bce_term 0 1 1
                          + bce_term 0 0 (2 * ln (2 - 1) - ln ((2 - 1) / 2) - 2 * ln 2 + 1),
                      requires_grad = False\<rparr>)
   \<and> bce_term 0 0 (2 * ln (2 - 1) - ln ((2 - 1) / 2) - 2 * ln 2 + 1) \<noteq> 0"
  using second_patch_is_outlier(1)[
          OF ws42_TF[where a = 0 and b = 0 and c = 0 and d = 0 and e = 0 and f = 0 and g = 0 and h = 0
                       and p = 0 and q = 0 and r = 0 and s = 0],
          where eps = "1 / 10000"]
        second_patch_is_outlier(2)[
          OF ws42_TF[where a = 0 and b = 0 and c = 0 and d = 0 and e = 0 and f = 0 and g = 0 and h = 0
                       and p = 0 and q = 0 and r = 0 and s = 0]]
        outlier_target_term
  by (simp add: of_rows_def prob_def centre_cell_def sigmoid_0)

section \<open>C3: absent terms\<close>

lemma classic_result_entries:
  "log_entry (Inr (classic_result t1 t2 t3 t4)) ''outlier_correspondence_loss'' = Some (detach_if_not_none t1)"
  "log_entry (Inr (classic_result t1 t2 t3 t4)) ''outlier_maximizer_loss'' = Some (detach_if_not_none t2)"
  "log_entry (Inr (classic_result t1 t2 t3 t4)) ''inlier_maximizer_loss'' = Some (detach_if_not_none t3)"
  "log_entry (Inr (classic_result t1 t2 t3 t4)) ''unaligned_maximizer_loss'' = Some (Some (detach t4))"
  "log_entry (Inr (classic_result t1 t2 t3 t4)) ''loss''
     = Some (Some (detach (fst (classic_result t1 t2 t3 t4))))"
  by (simp_all add: log_entry_def classic_result_def Let_def detach_if_not_none_def)

lemma present_item:
  "(case detach_if_not_none t of None \<Rightarrow> 0 | Some s \<Rightarrow> item s)
     = (case t of None \<Rightarrow> 0 | Some s \<Rightarrow> item s)"
  by (cases t) (simp_all add: detach_if_not_none_def detach_def)

lemma classic_result_total:
  "fst (classic_result t1 t2 t3 t4)
     = \<lparr>item = (case t1 of None \<Rightarrow> 0 | Some s \<Rightarrow> item s) + (case t2 of None \<Rightarrow> 0 | Some s \<Rightarrow> item s)
               + (case t3 of None \<Rightarrow> 0 | Some s \<Rightarrow> item s) + item t4,
        requires_grad = True,
        addends = present [t1, t2, t3, Some t4]\<rparr>"
  by (cases t1; cases t2; cases t3)
     (simp_all add: classic_result_def Let_def add_if_not_none_def zeros_leaf_def)

lemma bce_result_entries:
  "log_entry (Inr (bce_result t1 t2 t3)) ''bce_maximizer_loss'' = Some (detach_if_not_none t1)"
  "log_entry (Inr (bce_result t1 t2 t3)) ''outlier_correspondence_loss'' = Some (detach_if_not_none t2)"
  "log_entry (Inr (bce_result t1 t2 t3)) ''unaligned_maximizer_loss'' = Some (detach_if_not_none t3)"
  "log_entry (Inr (bce_result t1 t2 t3)) ''loss'' = Some (Some (detach (fst (bce_result t1 t2 t3))))"
  by (simp_all add: log_entry_def bce_result_def Let_def)

lemma bce_result_total:
  "fst (bce_result t1 t2 t3)
     = \<lparr>item = (case t1 of None \<Rightarrow> 0 | Some s \<Rightarrow> item s) + (case t2 of None \<Rightarrow> 0 | Some s \<Rightarrow> item s)
               + (case t3 of None \<Rightarrow> 0 | Some s \<Rightarrow> item s),
        requires_grad = True,
        addends = present [t1, t2, t3]\<rparr>"
  by (cases t1; cases t2; cases t3)
     (simp_all add: bce_result_def Let_def add_if_not_none_def zeros_leaf_def)

lemma detach_none_iff: "(detach_if_not_none t = None) = (t = None)"
  by (cases t) (simp_all add: detach_if_not_none_def)

lemma detach_present: "map detach (present ts) = present (map detach_if_not_none ts)"
  by (induction ts rule: present.induct) (simp_all add: detach_if_not_none_def)

lemma classic_result_accumulated:
  "accumulated (Inr (classic_result t1 t2 t3 t4)) = present [t1, t2, t3, Some t4]"
  by (simp add: accumulated_def split_beta classic_result_total)

lemma classic_result_logged:
  "logged_terms (Inr (classic_result t1 t2 t3 t4))
     = present [detach_if_not_none t1, detach_if_not_none t2, detach_if_not_none t3, Some (detach t4)]"
  by (simp add: logged_terms_def classic_result_def Let_def detach_if_not_none_def)

lemma bce_result_accumulated:
  "accumulated (Inr (bce_result t1 t2 t3)) = present [t1, t2, t3]"
  by (simp add: accumulated_def split_beta bce_result_total)

lemma bce_result_logged:
  "logged_terms (Inr (bce_result t1 t2 t3))
     = present [detach_if_not_none t1, detach_if_not_none t2, detach_if_not_none t3]"
  by (simp add: logged_terms_def bce_result_def Let_def)

lemma last_present: "last (present (ts @ [Some t])) = t" "present (ts @ [Some t]) \<noteq> []"
  by (induction ts rule: present.induct) simp_all

lemma classic_absent_terms:
  assumes "well_shaped mo co il ol"
  shows "(log_entry (classic_forward_with_log_data eps mo co il ol) ''outlier_correspondence_loss''
            = Some None) = (mask_cells (diag ol) = [])"
    and "(log_entry (classic_forward_with_log_data eps mo co il ol) ''outlier_maximizer_loss''
            = Some None) = (mask_cells (maxima_outlier_index il ol (patches mo)) = [])"
    and "(log_entry (classic_forward_with_log_data eps mo co il ol) ''inlier_maximizer_loss''
            = Some None) = (mask_cells (maxima_inlier_index il (patches mo)) = [])"
    and "log_entry (classic_forward_with_log_data eps mo co il ol) ''unaligned_maximizer_loss''
            = Some (Some (detach (classic_unaligned_maximizer_loss (prob mo) (grad4 mo) il (patches mo))))"
    and "mask_cells (unaligned_inlier_index il) = [] \<Longrightarrow>
           log_entry (classic_forward_with_log_data eps mo co il ol) ''unaligned_maximizer_loss''
             = Some (Some \<lparr>item = 0, requires_grad = False\<rparr>)"
    and "total_loss_of (classic_forward_with_log_data eps mo co il ol)
           = Some \<lparr>item = entry_item (classic_forward_with_log_data eps mo co il ol) ''outlier_correspondence_loss''
                        + entry_item (classic_forward_with_log_data eps mo co il ol) ''outlier_maximizer_loss''
                        + entry_item (classic_forward_with_log_data eps mo co il ol) ''inlier_maximizer_loss''
                        + entry_item (classic_forward_with_log_data eps mo co il ol) ''unaligned_maximizer_loss'',
                   requires_grad = True,
                   addends = accumulated (classic_forward_with_log_data eps mo co il ol)\<rparr>"
    and "map detach (accumulated (classic_forward_with_log_data eps mo co il ol))
           = logged_terms (classic_forward_with_log_data eps mo co il ol)"
    and "accumulated (classic_forward_with_log_data eps mo co il ol) \<noteq> []"
    and "last (accumulated (classic_forward_with_log_data eps mo co il ol))
           = classic_unaligned_maximizer_loss (prob mo) (grad4 mo) il (patches mo)"
    and "mask_cells (unaligned_inlier_index il) = [] \<Longrightarrow>
           last (accumulated (classic_forward_with_log_data eps mo co il ol)) = zeros_grad"
proof -
  note f = classic_forward_well_shaped[OF assms, of eps]
  show "(log_entry (classic_forward_with_log_data eps mo co il ol) ''outlier_correspondence_loss''
            = Some None) = (mask_cells (diag ol) = [])"
    by (simp add: f classic_result_entries detach_none_iff classic_outlier_correspondence_loss_def
        select_def)
  show "(log_entry (classic_forward_with_log_data eps mo co il ol) ''outlier_maximizer_loss''
            = Some None) = (mask_cells (maxima_outlier_index il ol (patches mo)) = [])"
    by (simp add: f classic_result_entries detach_none_iff classic_outlier_maximizer_loss_def
        outlier_maximizer_loss_of_def mask_sum_def Let_def)
  show "(log_entry (classic_forward_with_log_data eps mo co il ol) ''inlier_maximizer_loss''
            = Some None) = (mask_cells (maxima_inlier_index il (patches mo)) = [])"
    by (simp add: f classic_result_entries detach_none_iff classic_inlier_loss_def select_def)
  show "log_entry (classic_forward_with_log_data eps mo co il ol) ''unaligned_maximizer_loss''
            = Some (Some (detach (classic_unaligned_maximizer_loss (prob mo) (grad4 mo) il (patches mo))))"
    by (simp add: f classic_result_entries)
  show "log_entry (classic_forward_with_log_data eps mo co il ol) ''unaligned_maximizer_loss''
             = Some (Some \<lparr>item = 0, requires_grad = False\<rparr>)"
    if "mask_cells (unaligned_inlier_index il) = []"
    using that
    by (simp add: f classic_result_entries classic_unaligned_maximizer_loss_def select_def
        zeros_grad_def detach_def)
  show "total_loss_of (classic_forward_with_log_data eps mo co il ol)
           = Some \<lparr>item = entry_item (classic_forward_with_log_data eps mo co il ol) ''outlier_correspondence_loss''
                        + entry_item (classic_forward_with_log_data eps mo co il ol) ''outlier_maximizer_loss''
                        + entry_item (classic_forward_with_log_data eps mo co il ol) ''inlier_maximizer_loss''
                        + entry_item (classic_forward_with_log_data eps mo co il ol) ''unaligned_maximizer_loss'',
                   requires_grad = True,
                   addends = accumulated (classic_forward_with_log_data eps mo co il ol)\<rparr>"
    by (simp add: f entry_item_def classic_result_entries present_item detach_def
        total_loss_of_def split_beta classic_result_total classic_result_accumulated)
  show "map detach (accumulated (classic_forward_with_log_data eps mo co il ol))
           = logged_terms (classic_forward_with_log_data eps mo co il ol)"
    by (simp only: f classic_result_accumulated classic_result_logged detach_present)
       (simp add: detach_if_not_none_def)
  have l: "[t1, t2, t3, Some t4] = [t1, t2, t3] @ [Some t4]" for t1 t2 t3 :: "scalar option" and t4
    by simp
  show "accumulated (classic_forward_with_log_data eps mo co il ol) \<noteq> []"
    by (simp only: f classic_result_accumulated l last_present) simp
  show u: "last (accumulated (classic_forward_with_log_data eps mo co il ol))
           = classic_unaligned_maximizer_loss (prob mo) (grad4 mo) il (patches mo)"
    by (simp only: f classic_result_accumulated l last_present)
  show "last (accumulated (classic_forward_with_log_data eps mo co il ol)) = zeros_grad"
    if "mask_cells (unaligned_inlier_index il) = []"
    using that by (simp add: u classic_unaligned_maximizer_loss_def select_def)
qed

lemma bce_absent_terms:
  assumes "well_shaped mo co il ol"
  shows "(log_entry (fst (bce_forward_with_log_data ws mo co il ol)) ''outlier_correspondence_loss''
            = Some None) = (mask_cells (diag ol) = [])"
    and "(log_entry (fst (bce_forward_with_log_data ws mo co il ol)) ''bce_maximizer_loss''
            = Some None) = (has_data_rows il ol (patches mo) = [])"
    and "(log_entry (fst (bce_forward_with_log_data ws mo co il ol)) ''unaligned_maximizer_loss''
            = Some None) = (mask_cells (unaligned_inlier_index il) = [])"
    and "total_loss_of (fst (bce_forward_with_log_data ws mo co il ol))
           = Some \<lparr>item = entry_item (fst (bce_forward_with_log_data ws mo co il ol)) ''bce_maximizer_loss''
                        + entry_item (fst (bce_forward_with_log_data ws mo co il ol)) ''outlier_correspondence_loss''
                        + entry_item (fst (bce_forward_with_log_data ws mo co il ol)) ''unaligned_maximizer_loss'',
                   requires_grad = True,
                   addends = accumulated (fst (bce_forward_with_log_data ws mo co il ol))\<rparr>"
    and "map detach (accumulated (fst (bce_forward_with_log_data ws mo co il ol)))
           = logged_terms (fst (bce_forward_with_log_data ws mo co il ol))"
    and "mask_cells (diag ol) = [] \<and> has_data_rows il ol (patches mo) = []
           \<and> mask_cells (unaligned_inlier_index il) = [] \<Longrightarrow>
         total_loss_of (fst (bce_forward_with_log_data ws mo co il ol)) = Some zeros_leaf"
proof -
  note f = bce_forward_well_shaped[OF assms, of ws]
  show "(log_entry (fst (bce_forward_with_log_data ws mo co il ol)) ''outlier_correspondence_loss''
            = Some None) = (mask_cells (diag ol) = [])"
    by (simp add: f bce_result_entries detach_none_iff bce_outlier_correspondence_loss_def select_def)
  show "(log_entry (fst (bce_forward_with_log_data ws mo co il ol)) ''bce_maximizer_loss''
            = Some None) = (has_data_rows il ol (patches mo) = [])"
    by (simp add: f bce_result_entries detach_none_iff bce_maximizer_loss_def split_beta)
  show "(log_entry (fst (bce_forward_with_log_data ws mo co il ol)) ''unaligned_maximizer_loss''
            = Some None) = (mask_cells (unaligned_inlier_index il) = [])"
    by (simp add: f bce_result_entries detach_none_iff bce_unaligned_maximizer_loss_def select_def)
  show "total_loss_of (fst (bce_forward_with_log_data ws mo co il ol))
           = Some \<lparr>item = entry_item (fst (bce_forward_with_log_data ws mo co il ol)) ''bce_maximizer_loss''
                        + entry_item (fst (bce_forward_with_log_data ws mo co il ol)) ''outlier_correspondence_loss''
                        + entry_item (fst (bce_forward_with_log_data ws mo co il ol)) ''unaligned_maximizer_loss'',
                   requires_grad = True,
                   addends = accumulated (fst (bce_forward_with_log_data ws mo co il ol))\<rparr>"
    by (simp add: f entry_item_def bce_result_entries present_item total_loss_of_def split_beta
        bce_result_total bce_result_accumulated)
  show "map detach (accumulated (fst (bce_forward_with_log_data ws mo co il ol)))
           = logged_terms (fst (bce_forward_with_log_data ws mo co il ol))"
    by (simp only: f fst_conv bce_result_accumulated bce_result_logged detach_present) simp
  show "total_loss_of (fst (bce_forward_with_log_data ws mo co il ol)) = Some zeros_leaf"
    if "mask_cells (diag ol) = [] \<and> has_data_rows il ol (patches mo) = []
           \<and> mask_cells (unaligned_inlier_index il) = []"
    using that
    by (simp add: f total_loss_of_def split_beta bce_result_total bce_maximizer_loss_def
        bce_outlier_correspondence_loss_def bce_unaligned_maximizer_loss_def select_def
        zeros_leaf_def)
qed

lemma add_none: "add_if_not_none x None = x"
  by (simp add: add_if_not_none_def)

lemma add_some:
  "add_if_not_none x (Some y)
     = \<lparr>item = item x + item y, requires_grad = (requires_grad x \<or> requires_grad y),
        addends = addends x @ [y]\<rparr>"
  by (simp add: add_if_not_none_def)

text \<open>
  C3. In a well-shaped call of either variant a term is reported as None exactly when its
  selection is empty (for the cross-entropy maxima term: when no channel has data). The
  tensors added into the total are exactly the terms that are not None, each once and in the
  order of the source: detached, they are the entries of the log dictionary that are not
  None. So a term with an empty selection is not added, and no zero stands in for it:
  \<open>_add_if_not_none\<close> returns its first argument itself when the second is None. The total
  has the sum of the items of the present terms as its value and tracks gradients. When all
  three terms of Variant B are absent its total is the tensor \<open>torch.zeros(1,
  requires_grad=True)\<close> it started from, with nothing added. The unaligned term of Variant A
  is the exception: it is always added and always reported as a tensor, and when its
  selection is empty it is a zero tensor created with \<open>requires_grad=True\<close>.
\<close>

theorem absent_terms_are_none:
  assumes "well_shaped mo co il ol"
  shows "(log_entry (classic_forward_with_log_data eps mo co il ol) ''outlier_correspondence_loss''
            = Some None) = (mask_cells (diag ol) = [])
       \<and> (log_entry (classic_forward_with_log_data eps mo co il ol) ''outlier_maximizer_loss''
            = Some None) = (mask_cells (maxima_outlier_index il ol (patches mo)) = [])
       \<and> (log_entry (classic_forward_with_log_data eps mo co il ol) ''inlier_maximizer_loss''
            = Some None) = (mask_cells (maxima_inlier_index il (patches mo)) = [])
       \<and> log_entry (classic_forward_with_log_data eps mo co il ol) ''unaligned_maximizer_loss''
            = Some (Some (detach (classic_unaligned_maximizer_loss (prob mo) (grad4 mo) il (patches mo))))
       \<and> (mask_cells (unaligned_inlier_index il) = [] \<longrightarrow>
            log_entry (classic_forward_with_log_data eps mo co il ol) ''unaligned_maximizer_loss''
              = Some (Some \<lparr>item = 0, requires_grad = False\<rparr>)
            \<and> last (accumulated (classic_forward_with_log_data eps mo co il ol)) = zeros_grad)
       \<and> total_loss_of (classic_forward_with_log_data eps mo co il ol)
           = Some \<lparr>item = entry_item (classic_forward_with_log_data eps mo co il ol) ''outlier_correspondence_loss''
                        + entry_item (classic_forward_with_log_data eps mo co il ol) ''outlier_maximizer_loss''
                        + entry_item (classic_forward_with_log_data eps mo co il ol) ''inlier_maximizer_loss''
                        + entry_item (classic_forward_with_log_data eps mo co il ol) ''unaligned_maximizer_loss'',
                   requires_grad = True,
                   addends = accumulated (classic_forward_with_log_data eps mo co il ol)\<rparr>
       \<and> map detach (accumulated (classic_forward_with_log_data eps mo co il ol))
           = logged_terms (classic_forward_with_log_data eps mo co il ol)
       \<and> accumulated (classic_forward_with_log_data eps mo co il ol) \<noteq> []
       \<and> last (accumulated (classic_forward_with_log_data eps mo co il ol))
           = classic_unaligned_maximizer_loss (prob mo) (grad4 mo) il (patches mo)
       \<and> (log_entry (fst (bce_forward_with_log_data ws mo co il ol)) ''outlier_correspondence_loss''
            = Some None) = (mask_cells (diag ol) = [])
       \<and> (log_entry (fst (bce_forward_with_log_data ws mo co il ol)) ''bce_maximizer_loss''
            = Some None) = (has_data_rows il ol (patches mo) = [])
       \<and> (log_entry (fst (bce_forward_with_log_data ws mo co il ol)) ''unaligned_maximizer_loss''
            = Some None) = (mask_cells (unaligned_inlier_index il) = [])
       \<and> total_loss_of (fst (bce_forward_with_log_data ws mo co il ol))
           = Some \<lparr>item = entry_item (fst (bce_forward_with_log_data ws mo co il ol)) ''bce_maximizer_loss''
                        + entry_item (fst (bce_forward_with_log_data ws mo co il ol)) ''outlier_correspondence_loss''
                        + entry_item (fst (bce_forward_with_log_data ws mo co il ol)) ''unaligned_maximizer_loss'',
                   requires_grad = True,
                   addends = accumulated (fst (bce_forward_with_log_data ws mo co il ol))\<rparr>
       \<and> map detach (accumulated (fst (bce_forward_with_log_data ws mo co il ol)))
           = logged_terms (fst (bce_forward_with_log_data ws mo co il ol))
       \<and> (mask_cells (diag ol) = [] \<and> has_data_rows il ol (patches mo) = []
           \<and> mask_cells (unaligned_inlier_index il) = [] \<longrightarrow>
            total_loss_of (fst (bce_forward_with_log_data ws mo co il ol)) = Some zeros_leaf)
       \<and> add_if_not_none x None = x
       \<and> add_if_not_none x (Some y)
           = \<lparr>item = item x + item y, requires_grad = (requires_grad x \<or> requires_grad y),
              addends = addends x @ [y]\<rparr>"
  using classic_absent_terms(1)[OF assms, where eps = eps]
        classic_absent_terms(2)[OF assms, where eps = eps]
        classic_absent_terms(3)[OF assms, where eps = eps]
        classic_absent_terms(4)[OF assms, where eps = eps]
        classic_absent_terms(5)[OF assms, where eps = eps]
        classic_absent_terms(6)[OF assms, where eps = eps]
        classic_absent_terms(7)[OF assms, where eps = eps]
        classic_absent_terms(8)[OF assms, where eps = eps]
        classic_absent_terms(9)[OF assms, where eps = eps]
        classic_absent_terms(10)[OF assms, where eps = eps]
        bce_absent_terms(1)[OF assms, where ws = ws]
        bce_absent_terms(2)[OF assms, where ws = ws]
        bce_absent_terms(3)[OF assms, where ws = ws]
        bce_absent_terms(4)[OF assms, where ws = ws]
        bce_absent_terms(5)[OF assms, where ws = ws]
        bce_absent_terms(6)[OF assms, where ws = ws]
        add_none[of x] add_some[of x y]
  by (intro conjI impI) simp_all


lemma ws22_FF: "well_shaped (of_rows [[a, b], [c, d]]) (of_rows [[e, f], [g, h]])
     [False, False] [False, False]"
  by (simp add: well_shaped_def of_rows_def)

lemma rows_FF: "has_data_rows [False, False] [False, False] (Suc 0) = []"
  by (simp add: has_data_rows_def upt_2)

theorem absent_terms_are_none_witness:
  "well_shaped (of_rows [[1, 2], [3, 4]]) (of_rows [[5, 6], [7, 8]]) [False, False] [False, False]
   \<and> mask_cells (unaligned_inlier_index [False, False]) = []
   \<and> mask_cells (diag [False, False]) = []
   \<and> has_data_rows [False, False] [False, False] (patches (of_rows [[1, 2], [3, 4]])) = []
   \<and> log_entry (classic_forward_with_log_data (1 / 10000) (of_rows [[1, 2], [3, 4]])
         (of_rows [[5, 6], [7, 8]]) [False, False] [False, False]) ''unaligned_maximizer_loss''
       = Some (Some \<lparr>item = 0, requires_grad = False\<rparr>)
   \<and> log_entry (classic_forward_with_log_data (1 / 10000) (of_rows [[1, 2], [3, 4]])
         (of_rows [[5, 6], [7, 8]]) [False, False] [False, False]) ''outlier_correspondence_loss''
       = Some None
   \<and> last (accumulated (classic_forward_with_log_data (1 / 10000) (of_rows [[1, 2], [3, 4]])
         (of_rows [[5, 6], [7, 8]]) [False, False] [False, False]))
       = zeros_grad
   \<and> total_loss_of (fst (bce_forward_with_log_data init_weights (of_rows [[1, 2], [3, 4]])
         (of_rows [[5, 6], [7, 8]]) [False, False] [False, False]))
       = Some zeros_leaf
   \<and> add_if_not_none \<lparr>item = 3, requires_grad = False, addends = []\<rparr> None
       = \<lparr>item = 3, requires_grad = False, addends = []\<rparr>"
proof -
  have p: "patches (of_rows [[1, 2], [3, 4]]) = Suc 0" by (simp add: patches_def of_rows_def)
  have h: "has_data_rows [False, False] [False, False] (patches (of_rows [[1, 2], [3, 4]])) = []"
    by (simp add: p rows_FF)
  note w = ws22_FF[where a = 1 and b = 2 and c = 3 and d = 4 and e = 5 and f = 6 and g = 7 and h = 8]
  show ?thesis
    using absent_terms_are_none[OF w, where eps = "1 / 10000" and ws = init_weights
            and x = "\<lparr>item = 3, requires_grad = False, addends = []\<rparr>"]
          w h cells_diag_FF cells_unaligned_FF
    by blast
qed

end
